theory Spec2Isabelle
  imports Complex_Main
begin

text \<open>
  A model of the frame loop of the vortex scene: the script with the audio envelope,
  the Newtonian pull on the sphere, the collision and the vignette, and its particle
  loop, which the earlier script \<open>main.js\<close> has word for word. Global variables become
  the fields of one state record, each function of the script a function on that
  state, the callbacks of the browser the events of a run. What the clock, the
  keyboard and \<open>Math.random\<close> supply is an argument of the event.
\<close>

section \<open>JavaScript numbers\<close>

text \<open>
  The program computes with JavaScript numbers. A number is modelled as an exact real
  (\<open>Fin\<close>) or one of the three special values that a division by zero produces and that
  every later operation propagates. Rounding, overflow and underflow of the 64-bit
  format are not modelled, and the two zeros are identified: every divisor of the
  program is a positive constant, a vector length or a square of one, so a zero divisor
  is always the positive zero.
\<close>

datatype jsnum = Fin real | PosInf | NegInf | NaN

fun isFinite :: "jsnum \<Rightarrow> bool" where
  "isFinite (Fin a) = True"
| "isFinite PosInf = False"
| "isFinite NegInf = False"
| "isFinite NaN = False"

text \<open>\<open>inRange lo hi a\<close>: the number \<open>a\<close> is finite and lies in \<open>[lo, hi]\<close>.\<close>

fun inRange :: "real \<Rightarrow> real \<Rightarrow> jsnum \<Rightarrow> bool" where
  "inRange lo hi (Fin a) = (lo \<le> a \<and> a \<le> hi)"
| "inRange lo hi PosInf = False"
| "inRange lo hi NegInf = False"
| "inRange lo hi NaN = False"

instantiation jsnum :: "{plus, uminus, minus, times, inverse, ord}"
begin

fun plus_jsnum :: "jsnum \<Rightarrow> jsnum \<Rightarrow> jsnum" where
  "Fin a + Fin b = Fin (a + b)"
| "NaN + b = NaN"
| "a + NaN = NaN"
| "PosInf + NegInf = NaN"
| "NegInf + PosInf = NaN"
| "PosInf + b = PosInf"
| "a + PosInf = PosInf"
| "NegInf + b = NegInf"
| "a + NegInf = NegInf"

fun uminus_jsnum :: "jsnum \<Rightarrow> jsnum" where
  "- Fin a = Fin (- a)"
| "- PosInf = NegInf"
| "- NegInf = PosInf"
| "- NaN = NaN"

definition minus_jsnum :: "jsnum \<Rightarrow> jsnum \<Rightarrow> jsnum" where
  "(a::jsnum) - b = a + (- b)"

fun times_jsnum :: "jsnum \<Rightarrow> jsnum \<Rightarrow> jsnum" where
  "Fin a * Fin b = Fin (a * b)"
| "NaN * b = NaN"
| "a * NaN = NaN"
| "PosInf * Fin b = (if b = 0 then NaN else if 0 < b then PosInf else NegInf)"
| "NegInf * Fin b = (if b = 0 then NaN else if 0 < b then NegInf else PosInf)"
| "Fin a * PosInf = (if a = 0 then NaN else if 0 < a then PosInf else NegInf)"
| "Fin a * NegInf = (if a = 0 then NaN else if 0 < a then NegInf else PosInf)"
| "PosInf * PosInf = PosInf"
| "PosInf * NegInf = NegInf"
| "NegInf * PosInf = NegInf"
| "NegInf * NegInf = PosInf"

fun divide_jsnum :: "jsnum \<Rightarrow> jsnum \<Rightarrow> jsnum" where
  "divide_jsnum (Fin a) (Fin b) =
     (if b \<noteq> 0 then Fin (a / b)
      else if a = 0 then NaN else if 0 < a then PosInf else NegInf)"
| "divide_jsnum NaN b = NaN"
| "divide_jsnum a NaN = NaN"
| "divide_jsnum (Fin a) PosInf = Fin 0"
| "divide_jsnum (Fin a) NegInf = Fin 0"
| "divide_jsnum PosInf (Fin b) = (if 0 \<le> b then PosInf else NegInf)"
| "divide_jsnum NegInf (Fin b) = (if 0 \<le> b then NegInf else PosInf)"
| "divide_jsnum PosInf PosInf = NaN"
| "divide_jsnum PosInf NegInf = NaN"
| "divide_jsnum NegInf PosInf = NaN"
| "divide_jsnum NegInf NegInf = NaN"

definition inverse_jsnum :: "jsnum \<Rightarrow> jsnum" where
  "inverse a = divide (Fin 1) a"

fun less_jsnum :: "jsnum \<Rightarrow> jsnum \<Rightarrow> bool" where
  "Fin a < Fin b = (a < b)"
| "NaN < b = False"
| "a < NaN = False"
| "a < NegInf = False"
| "NegInf < b = True"
| "PosInf < b = False"
| "a < PosInf = True"

definition less_eq_jsnum :: "jsnum \<Rightarrow> jsnum \<Rightarrow> bool" where
  "(a::jsnum) \<le> b = (a < b \<or> (a = b \<and> a \<noteq> NaN))"

instance ..

end

text \<open>\<open>Math.min\<close> and \<open>Math.max\<close> return \<open>NaN\<close> as soon as one argument is \<open>NaN\<close>.\<close>

definition Math_min :: "jsnum \<Rightarrow> jsnum \<Rightarrow> jsnum" where
  "Math_min a b = (if a = NaN \<or> b = NaN then NaN else if a < b then a else b)"

definition Math_max :: "jsnum \<Rightarrow> jsnum \<Rightarrow> jsnum" where
  "Math_max a b = (if a = NaN \<or> b = NaN then NaN else if a < b then b else a)"

fun Math_sqrt :: "jsnum \<Rightarrow> jsnum" where
  "Math_sqrt (Fin a) = (if a < 0 then NaN else Fin (sqrt a))"
| "Math_sqrt PosInf = PosInf"
| "Math_sqrt NegInf = NaN"
| "Math_sqrt NaN = NaN"

fun Math_sin :: "jsnum \<Rightarrow> jsnum" where
  "Math_sin (Fin a) = Fin (sin a)"
| "Math_sin PosInf = NaN"
| "Math_sin NegInf = NaN"
| "Math_sin NaN = NaN"

fun Math_cos :: "jsnum \<Rightarrow> jsnum" where
  "Math_cos (Fin a) = Fin (cos a)"
| "Math_cos PosInf = NaN"
| "Math_cos NegInf = NaN"
| "Math_cos NaN = NaN"

definition Math_PI :: jsnum where
  "Math_PI = Fin pi"

text \<open>The operand of \<open>||\<close> is falsy when it is zero or \<open>NaN\<close>.\<close>

definition js_or :: "jsnum \<Rightarrow> jsnum \<Rightarrow> jsnum" where
  "js_or a b = (if a = Fin 0 \<or> a = NaN then b else a)"

text \<open>
  A store into a \<open>Float32Array\<close> narrows the number to single precision: the nearest
  number with a 24-bit significand, a tie going to the even significand, with the
  exponent not below \<open>-126\<close>, and an infinity when that number is \<open>2\<^sup>1\<^sup>2\<^sup>8\<close> or more in
  magnitude. This is \<open>Math.fround\<close>; the numbers of the program keep their 64-bit
  idealisation everywhere else.
\<close>

definition roundTiesToEven :: "real \<Rightarrow> int" where
  "roundTiesToEven y =
     (let n = \<lfloor>y\<rfloor>; r = y - of_int n
      in if r < 1 / 2 then n else if 1 / 2 < r then n + 1 else if even n then n else n + 1)"

definition float32_exponent :: "real \<Rightarrow> int" where
  "float32_exponent x = max (- 126) \<lfloor>log 2 \<bar>x\<bar>\<rfloor>"

definition fround_real :: "real \<Rightarrow> real" where
  "fround_real x =
     (if x = 0 then 0
      else let u = 2 powr (of_int (float32_exponent x) - 23)
           in of_int (roundTiesToEven (x / u)) * u)"

fun Math_fround :: "jsnum \<Rightarrow> jsnum" where
  "Math_fround (Fin x) =
     (if 2 ^ 128 \<le> \<bar>fround_real x\<bar> then (if 0 < x then PosInf else NegInf)
      else Fin (fround_real x))"
| "Math_fround PosInf = PosInf"
| "Math_fround NegInf = NegInf"
| "Math_fround NaN = NaN"

section \<open>The vectors of three.js\<close>

text \<open>
  \<open>THREE.Vector3\<close> with the methods the frame function calls, as three.js defines them:
  \<open>length\<close> is the square root of the sum of the squares, \<open>divideScalar s\<close> multiplies by
  \<open>1 / s\<close>, \<open>normalize\<close> divides by \<open>length() || 1\<close>, and \<open>setLength l\<close> normalizes and
  multiplies by \<open>l\<close>.
\<close>

datatype Vector3 = Vector3 (vx: jsnum) (vy: jsnum) (vz: jsnum)

definition finite_vec :: "Vector3 \<Rightarrow> bool" where
  "finite_vec v = (isFinite (vx v) \<and> isFinite (vy v) \<and> isFinite (vz v))"

definition add_vec :: "Vector3 \<Rightarrow> Vector3 \<Rightarrow> Vector3" where
  "add_vec a v = Vector3 (vx a + vx v) (vy a + vy v) (vz a + vz v)"

definition sub_vec :: "Vector3 \<Rightarrow> Vector3 \<Rightarrow> Vector3" where
  "sub_vec a v = Vector3 (vx a - vx v) (vy a - vy v) (vz a - vz v)"

definition multiplyScalar :: "Vector3 \<Rightarrow> jsnum \<Rightarrow> Vector3" where
  "multiplyScalar a s = Vector3 (vx a * s) (vy a * s) (vz a * s)"

definition addScaledVector :: "Vector3 \<Rightarrow> Vector3 \<Rightarrow> jsnum \<Rightarrow> Vector3" where
  "addScaledVector a v s = Vector3 (vx a + vx v * s) (vy a + vy v * s) (vz a + vz v * s)"

definition length_vec :: "Vector3 \<Rightarrow> jsnum" where
  "length_vec a = Math_sqrt (vx a * vx a + vy a * vy a + vz a * vz a)"

definition divideScalar :: "Vector3 \<Rightarrow> jsnum \<Rightarrow> Vector3" where
  "divideScalar a s = multiplyScalar a (Fin 1 / s)"

definition normalize_vec :: "Vector3 \<Rightarrow> Vector3" where
  "normalize_vec a = divideScalar a (js_or (length_vec a) (Fin 1))"

definition setLength :: "Vector3 \<Rightarrow> jsnum \<Rightarrow> Vector3" where
  "setLength a l = multiplyScalar (normalize_vec a) l"

text \<open>
  The three numbers that \<open>setXYZ\<close> leaves in a \<open>Float32Array\<close> attribute, and that \<open>getX\<close>,
  \<open>getY\<close> and \<open>getZ\<close> read back.
\<close>

definition float32_vec :: "Vector3 \<Rightarrow> Vector3" where
  "float32_vec a = Vector3 (Math_fround (vx a)) (Math_fround (vy a)) (Math_fround (vz a))"

section \<open>The sphere\<close>

definition vortexPos :: Vector3 where
  "vortexPos = Vector3 (Fin 0) (Fin 0) (Fin (- 18))"

definition playerAccel :: jsnum where
  "playerAccel = Fin 0.13"

definition friction :: jsnum where
  "friction = Fin 0.992"

definition maxSpeed :: jsnum where
  "maxSpeed = Fin 1.35"

text \<open>\<open>let K = 5 + 1800 * Math.min(1, (dist - 10) / 400)\<close>, with \<open>dst\<close> for the source's \<open>dist\<close>\<close>

definition gravK :: "jsnum \<Rightarrow> jsnum" where
  "gravK dst = Fin 5 + Fin 1800 * Math_min (Fin 1) ((dst - Fin 10) / Fin 400)"

text \<open>\<open>let gravStrength = K / (dist * dist)\<close>\<close>

definition gravStrength :: "jsnum \<Rightarrow> jsnum" where
  "gravStrength dst = gravK dst / (dst * dst)"

definition noiseAmplitude :: "jsnum \<Rightarrow> jsnum" where
  "noiseAmplitude dst = Fin 0.005 * Math_max (Fin 0.1) (Fin 1 - dst / Fin 100)"

definition noiseAngle :: "jsnum \<Rightarrow> jsnum" where
  "noiseAngle time =
     Math_sin (time * Fin 0.0017) * Math_PI * Fin 2 + Math_cos (time * Fin 0.00113)"

definition noise :: "jsnum \<Rightarrow> jsnum \<Rightarrow> Vector3" where
  "noise time dst =
     Vector3 (Math_sin (noiseAngle time + Fin 0.6) * noiseAmplitude dst)
             (Math_sin (noiseAngle time - Fin 0.3) * noiseAmplitude dst * Fin 0.55)
             (Math_cos (noiseAngle time + Fin 0.3) * noiseAmplitude dst)"

text \<open>
  The player's input: \<open>moveTarget\<close> holds the two axes set by the arrow keys. The frame
  adds \<open>moveVec\<close> only when one axis is not zero.
\<close>

definition moveVec :: "jsnum \<times> jsnum \<Rightarrow> Vector3" where
  "moveVec mt = multiplyScalar (normalize_vec (Vector3 (fst mt) (Fin 0) (snd mt))) playerAccel"

definition addPlayerInput :: "jsnum \<times> jsnum \<Rightarrow> Vector3 \<Rightarrow> Vector3" where
  "addPlayerInput mt v =
     (if fst mt \<noteq> Fin 0 \<or> snd mt \<noteq> Fin 0 then add_vec v (moveVec mt) else v)"

text \<open>\<open>if (sphereVelocity.length() > maxSpeed) sphereVelocity.setLength(maxSpeed)\<close>\<close>

definition clampSpeed :: "Vector3 \<Rightarrow> Vector3" where
  "clampSpeed v = (if maxSpeed < length_vec v then setLength v maxSpeed else v)"

text \<open>
  The velocity of the sphere after gravity, noise and input, before the clamp. The frame
  function computes \<open>dist\<close> and \<open>dirToVortex\<close> once, from the position at the start of
  the frame, and passes them on.
\<close>

definition acceleratedVelocity ::
  "jsnum \<Rightarrow> jsnum \<times> jsnum \<Rightarrow> jsnum \<Rightarrow> Vector3 \<Rightarrow> Vector3 \<Rightarrow> Vector3" where
  "acceleratedVelocity time mt dst dirToVortex vel =
     (let v1 = addScaledVector vel dirToVortex (gravStrength dst);
          v2 = add_vec v1 (noise time dst)
      in addPlayerInput mt v2)"

text \<open>Clamp, then friction: the velocity at the end of the frame.\<close>

definition nextVelocity ::
  "jsnum \<Rightarrow> jsnum \<times> jsnum \<Rightarrow> jsnum \<Rightarrow> Vector3 \<Rightarrow> Vector3 \<Rightarrow> Vector3" where
  "nextVelocity time mt dst dirToVortex vel =
     multiplyScalar (clampSpeed (acceleratedVelocity time mt dst dirToVortex vel)) friction"

section \<open>The audio envelope\<close>

text \<open>
  A pending \<open>step\<close> callback of \<open>fadeOutAudio\<close>: the closure holds the gain at the call
  (\<open>start\<close>), the clock reading at the call (\<open>startTime\<close>) and the \<open>duration\<close>.
\<close>

record fade =
  start :: jsnum
  startTime :: real
  duration :: real

text \<open>
  The global variables of the program. \<open>gainNode_gain\<close> and \<open>filterNode_frequency\<close> are
  \<open>None\<close> until \<open>startAudio\<close> creates the nodes; \<open>stepCallbacks\<close> are the \<open>step\<close> closures
  handed to \<open>requestAnimationFrame\<close> and not yet run; \<open>startAudio_listening\<close> is the
  \<open>once\<close> listener that starts the audio at the first key; \<open>console\<close> is what
  \<open>console.log\<close> has printed. The camera, the lens and chromatic passes, the pulsation of
  the sphere and the sizes and alphas of the particles are written by the frame
  function and read by the renderer only; they are left out.
\<close>

record world =
  hasCollided :: bool
  audioStarted :: bool
  targetGain :: jsnum
  currentGain :: jsnum
  fading :: bool
  gainNode_gain :: "jsnum option"
  filterNode_frequency :: "jsnum option"
  audio_playing :: bool
  stepCallbacks :: "fade list"
  startAudio_listening :: bool
  sphere_position :: Vector3
  sphereVelocity :: Vector3
  moveTarget :: "jsnum \<times> jsnum"
  positions :: "Vector3 list"
  velocities :: "Vector3 list"
  vignette_opacity :: jsnum
  console :: "string list"

definition startAudio :: "world \<Rightarrow> world" where
  "startAudio s =
     (if audioStarted s then s
      else s\<lparr>filterNode_frequency := Some (Fin 10000),
             gainNode_gain := Some (Fin 0.7),
             currentGain := Fin 0.7,
             targetGain := Fin 0.7,
             audio_playing := True,
             audioStarted := True\<rparr>)"

definition setAudioIntensity :: "jsnum \<Rightarrow> world \<Rightarrow> world" where
  "setAudioIntensity intensity s =
     (if \<not> audioStarted s then s
      else let intensity = Math_max (Fin 0) (Math_min (Fin 1.2) intensity)
           in s\<lparr>targetGain := Fin 0.13 + Fin 0.95 * intensity,
                  filterNode_frequency := Some (Fin 800 + Fin 8000 * (Fin 1 - intensity))\<rparr>)"

text \<open>
  \<open>fadeOutAudio(duration)\<close>, called when the clock (\<open>performance.now()\<close>) reads \<open>perfNow\<close>:
  it hands the first \<open>step\<close> to \<open>requestAnimationFrame\<close>.
\<close>

definition fadeOutAudio :: "real \<Rightarrow> real \<Rightarrow> world \<Rightarrow> world" where
  "fadeOutAudio dur perfNow s =
     (if \<not> audioStarted s \<or> fading s then s
      else s\<lparr>fading := True,
             stepCallbacks := stepCallbacks s @
               [\<lparr>start = currentGain s, startTime = perfNow, duration = dur\<rparr>]\<rparr>)"

text \<open>The fraction \<open>t\<close> of the fade that has elapsed at the timestamp \<open>now\<close>.\<close>

definition fadeT :: "fade \<Rightarrow> real \<Rightarrow> jsnum" where
  "fadeT f now = Math_min (Fin 1) ((Fin now - Fin (startTime f)) / Fin (duration f))"

text \<open>One run of the callback \<open>step(now)\<close> of the closure \<open>f\<close>.\<close>

definition step :: "fade \<Rightarrow> real \<Rightarrow> world \<Rightarrow> world" where
  "step f now s =
     (let t = fadeT f now;
          s1 = s\<lparr>currentGain := start f * (Fin 1 - t),
                  gainNode_gain := Some (start f * (Fin 1 - t))\<rparr>
      in if t < Fin 1 then s1\<lparr>stepCallbacks := stepCallbacks s1 @ [f]\<rparr>
         else s1\<lparr>audio_playing := False,
                 audioStarted := False,
                 fading := False,
                 gainNode_gain := Some (Fin 0),
                 currentGain := Fin 0\<rparr>)"

section \<open>The frame function\<close>

text \<open>\<open>let intensity = 2 - Math.min(1, dist / 160)\<close>\<close>

definition intensityAt :: "jsnum \<Rightarrow> jsnum" where
  "intensityAt dst = Fin 2 - Math_min (Fin 1) (dst / Fin 160)"

text \<open>The smoothing of the volume, run in every frame.\<close>

definition smoothGain :: "world \<Rightarrow> world" where
  "smoothGain s =
     (if audioStarted s \<and> \<not> fading s
      then let g = currentGain s + (targetGain s - currentGain s) * Fin 0.04
           in s\<lparr>currentGain := g, gainNode_gain := Some g\<rparr>
      else s)"

text \<open>The sphere: new velocity, then one Euler step of the position.\<close>

definition moveSphere :: "jsnum \<Rightarrow> jsnum \<Rightarrow> Vector3 \<Rightarrow> world \<Rightarrow> world" where
  "moveSphere time dst dirToVortex s =
     (let vel = nextVelocity time (moveTarget s) dst dirToVortex (sphereVelocity s)
      in s\<lparr>sphereVelocity := vel, sphere_position := add_vec (sphere_position s) vel\<rparr>)"

text \<open>
  \<open>if (!hasCollided && dist < 1) { hasCollided = true; fadeOutAudio(); console.log(...) }\<close>;
  the default \<open>duration\<close> is 1900.
\<close>

definition engulf :: "real \<Rightarrow> jsnum \<Rightarrow> world \<Rightarrow> world" where
  "engulf perfNow dst s =
     (if \<not> hasCollided s \<and> dst < Fin 1
      then let s1 = fadeOutAudio 1900 perfNow (s\<lparr>hasCollided := True\<rparr>)
           in s1\<lparr>console := console s1 @ [''Boule engloutie !'']\<rparr>
      else s)"

subsection \<open>Particles\<close>

definition PARTICLE_COUNT :: nat where
  "PARTICLE_COUNT = 1500"

definition RANGE :: jsnum where
  "RANGE = Fin 1500"

text \<open>
  \<open>rnd\<close> is the sequence of values that \<open>Math.random()\<close> returns, each in \<open>[0, 1)\<close>;
  \<open>spawn rnd k\<close> is the position drawn from the values \<open>k\<close>, \<open>k + 1\<close> and \<open>k + 2\<close>.
\<close>

definition spawn :: "(nat \<Rightarrow> real) \<Rightarrow> nat \<Rightarrow> Vector3" where
  "spawn rnd k =
     Vector3 ((Fin (rnd k) - Fin 0.5) * RANGE)
             ((Fin (rnd (k + 1)) - Fin 0.5) * RANGE * Fin 0.5)
             ((Fin (rnd (k + 2)) - Fin 0.5) * RANGE - Fin 10)"

definition attract :: "jsnum \<Rightarrow> jsnum" where
  "attract d =
     (let a = Math_max (Fin 0.015) (Math_min (Fin 0.07) (Fin 0.011 + Fin 0.18 / (d * d)))
      in if d < Fin 23 then a * Fin 1.6 else a)"

text \<open>
  The body of the loop on one particle: from its position \<open>p\<close> and velocity \<open>vel\<close> to the
  position that \<open>setXYZ\<close> stores and the velocity left in \<open>velocities[i]\<close>; \<open>k\<close> counts
  the random values used so far.
\<close>

definition moveParticle ::
  "(nat \<Rightarrow> real) \<Rightarrow> nat \<Rightarrow> Vector3 \<Rightarrow> Vector3 \<Rightarrow> nat \<times> Vector3 \<times> Vector3" where
  "moveParticle rnd k p vel =
     (let toVortex = sub_vec vortexPos p;
          d = length_vec toVortex;
          v1 = add_vec vel (multiplyScalar (normalize_vec toVortex) (attract d));
          v2 = multiplyScalar v1 (Fin 0.97);
          p1 = add_vec p v2
      in if d < Fin 3.5
         then (k + 3, spawn rnd k, Vector3 (Fin 0) (Fin 0) (Fin 0))
         else (k, p1, v2))"

text \<open>
  Iteration \<open>i\<close> of the loop. Both arrays are allocated with \<open>PARTICLE_COUNT\<close> entries
  and the loop runs over \<open>i < PARTICLE_COUNT\<close>. The positions are a \<open>Float32Array\<close>:
  \<open>posAttr.setXYZ\<close> stores the new position in single precision. The velocities are
  \<open>Vector3\<close> objects and keep their numbers as they are.
\<close>

definition updateParticle :: "(nat \<Rightarrow> real) \<Rightarrow> nat \<Rightarrow> nat \<times> world \<Rightarrow> nat \<times> world" where
  "updateParticle rnd i ks =
     (let s = snd ks;
          r = moveParticle rnd (fst ks) (positions s ! i) (velocities s ! i)
      in (fst r, s\<lparr>positions := (positions s)[i := float32_vec (fst (snd r))],
                    velocities := (velocities s)[i := snd (snd r)]\<rparr>))"

definition updateParticles :: "(nat \<Rightarrow> real) \<Rightarrow> world \<Rightarrow> world" where
  "updateParticles rnd s =
     snd (foldl (\<lambda>ks i. updateParticle rnd i ks) (0, s) [0..<PARTICLE_COUNT])"

subsection \<open>Vignette\<close>

definition vignetteStrength :: "jsnum \<Rightarrow> jsnum" where
  "vignetteStrength dst =
     (let maxDist = Fin 7; minDist = Fin 0
      in Fin 1 - Math_min (Fin 1) (Math_max (Fin 0) ((dst - minDist) / (maxDist - minDist))))"

definition vignetteOpacity :: "jsnum \<Rightarrow> jsnum" where
  "vignetteOpacity dst = vignetteStrength dst * Fin 0.92"

subsection \<open>One call of \<open>animate\<close>\<close>

text \<open>
  \<open>animate(time)\<close>, with the clock reading \<open>perfNow\<close> that a call of \<open>fadeOutAudio\<close> in this
  frame would see and the random values \<open>rnd\<close> of this frame.
\<close>

definition animate :: "real \<Rightarrow> real \<Rightarrow> (nat \<Rightarrow> real) \<Rightarrow> world \<Rightarrow> world" where
  "animate time perfNow rnd s =
     (let toVortex = sub_vec vortexPos (sphere_position s);
          dst = length_vec toVortex;
          dirToVortex = normalize_vec toVortex;
          s1 = setAudioIntensity (intensityAt dst) s;
          s2 = smoothGain s1;
          s3 = moveSphere (Fin time) dst dirToVortex s2;
          s4 = engulf perfNow dst s3;
          s5 = updateParticles rnd s4
      in s5\<lparr>vignette_opacity := vignetteOpacity dst\<rparr>)"

section \<open>Events\<close>

text \<open>
  An animation frame runs the callbacks handed to \<open>requestAnimationFrame\<close> since the
  last one, in the order they were handed over, all with the same timestamp. A \<open>step\<close>
  is first handed over inside \<open>animate\<close>, before \<open>animate\<close> asks for its own next call,
  so from then on the pending \<open>step\<close> runs before \<open>animate\<close>.
\<close>

fun runCallbacks :: "real \<Rightarrow> fade list \<Rightarrow> world \<Rightarrow> world" where
  "runCallbacks now [] s = s"
| "runCallbacks now (f # fs) s = runCallbacks now fs (step f now s)"

definition frame :: "real \<Rightarrow> real \<Rightarrow> (nat \<Rightarrow> real) \<Rightarrow> world \<Rightarrow> world" where
  "frame time perfNow rnd s =
     animate time perfNow rnd
       (runCallbacks time (stepCallbacks s) (s\<lparr>stepCallbacks := []\<rparr>))"

text \<open>The two \<open>keydown\<close> listeners and the \<open>keyup\<close> listener.\<close>

definition keydown :: "string \<Rightarrow> world \<Rightarrow> world" where
  "keydown code s =
     (let x0 = fst (moveTarget s); z0 = snd (moveTarget s);
          x1 = (if code = ''ArrowLeft'' then Fin (- 1) else x0);
          x2 = (if code = ''ArrowRight'' then Fin 1 else x1);
          z1 = (if code = ''ArrowUp'' then Fin (- 1) else z0);
          z2 = (if code = ''ArrowDown'' then Fin 1 else z1);
          s1 = s\<lparr>moveTarget := (x2, z2)\<rparr>
      in if startAudio_listening s1
         then startAudio (s1\<lparr>startAudio_listening := False\<rparr>)
         else s1)"

definition keyup :: "string \<Rightarrow> world \<Rightarrow> world" where
  "keyup code s =
     (let x0 = fst (moveTarget s); z0 = snd (moveTarget s);
          x1 = (if code \<in> set [''ArrowLeft'', ''ArrowRight''] then Fin 0 else x0);
          z1 = (if code \<in> set [''ArrowUp'', ''ArrowDown''] then Fin 0 else z0)
      in s\<lparr>moveTarget := (x1, z1)\<rparr>)"

datatype event =
    KeyDown string
  | KeyUp string
  | AnimationFrame real real "nat \<Rightarrow> real"

fun handle :: "event \<Rightarrow> world \<Rightarrow> world" where
  "handle (KeyDown code) s = keydown code s"
| "handle (KeyUp code) s = keyup code s"
| "handle (AnimationFrame time perfNow rnd) s = frame time perfNow rnd s"

fun run :: "event list \<Rightarrow> world \<Rightarrow> world" where
  "run [] s = s"
| "run (e # es) s = run es (handle e s)"

text \<open>
  The state when the script has run: the sphere at \<open>(0, 0, 1000)\<close> at rest, the particles
  at the positions drawn from \<open>rnd\<close> (five values per particle: position, size, alpha)
  and stored in single precision.
\<close>

definition initialWorld :: "(nat \<Rightarrow> real) \<Rightarrow> world" where
  "initialWorld rnd =
     \<lparr>hasCollided = False,
      audioStarted = False,
      targetGain = Fin 1,
      currentGain = Fin 1,
      fading = False,
      gainNode_gain = None,
      filterNode_frequency = None,
      audio_playing = False,
      stepCallbacks = [],
      startAudio_listening = True,
      sphere_position = Vector3 (Fin 0) (Fin 0) (Fin 1000),
      sphereVelocity = Vector3 (Fin 0) (Fin 0) (Fin 0),
      moveTarget = (Fin 0, Fin 0),
      positions = map (\<lambda>i. float32_vec (spawn rnd (5 * i))) [0..<PARTICLE_COUNT],
      velocities = replicate PARTICLE_COUNT (Vector3 (Fin 0) (Fin 0) (Fin 0)),
      vignette_opacity = Fin 0,
      console = []\<rparr>"

section \<open>Properties of runs\<close>

text \<open>
  \<open>near s\<close>: the sphere is within distance \<open>1\<close> of the vortex, the test of the frame
  function for the collision. \<open>nearFrames es s\<close> counts the animation frames of the run
  \<open>es\<close> from \<open>s\<close> that start in such a state.
\<close>

definition near :: "world \<Rightarrow> bool" where
  "near s = (length_vec (sub_vec vortexPos (sphere_position s)) < Fin 1)"





text \<open>
  The bounds on the audio state at clock reading \<open>t\<close>: \<open>currentGain\<close> in \<open>[0, 1.27]\<close>,
  \<open>targetGain\<close> in \<open>[0.13, 1.27]\<close>, the gain of the gain node, once created, in
  \<open>[0, 1.27]\<close>, and every pending fade started at or before \<open>t\<close>, from a gain in
  \<open>[0, 1.27]\<close>, with a positive duration.
\<close>

definition fade_ok :: "real \<Rightarrow> fade \<Rightarrow> bool" where
  "fade_ok t f = (inRange 0 1.27 (start f) \<and> startTime f \<le> t \<and> 0 < duration f)"

definition audio_inv :: "real \<Rightarrow> world \<Rightarrow> bool" where
  "audio_inv t s =
     (inRange 0 1.27 (currentGain s) \<and> inRange 0.13 1.27 (targetGain s) \<and>
      (case gainNode_gain s of None \<Rightarrow> True | Some g \<Rightarrow> inRange 0 1.27 g) \<and>
      list_all (fade_ok t) (stepCallbacks s))"

text \<open>
  A run is well timed from the clock reading \<open>t\<close> when the timestamp of each frame is
  not before the last clock reading, the clock reading inside the frame is not before
  its timestamp, and each frame starts with the sphere at a finite position.
\<close>

fun wellTimed :: "real \<Rightarrow> event list \<Rightarrow> world \<Rightarrow> bool" where
  "wellTimed t [] s = True"
| "wellTimed t (KeyDown code # es) s = wellTimed t es (keydown code s)"
| "wellTimed t (KeyUp code # es) s = wellTimed t es (keyup code s)"
| "wellTimed t (AnimationFrame time perfNow rnd # es) s =
     (t \<le> time \<and> time \<le> perfNow \<and> finite_vec (sphere_position s) \<and>
      wellTimed perfNow es (frame time perfNow rnd s))"

text \<open>The clock reading at the end of a run that started at reading \<open>t\<close>.\<close>

fun clockAfter :: "real \<Rightarrow> event list \<Rightarrow> real" where
  "clockAfter t [] = t"
| "clockAfter t (KeyDown code # es) = clockAfter t es"
| "clockAfter t (KeyUp code # es) = clockAfter t es"
| "clockAfter t (AnimationFrame time perfNow rnd # es) = clockAfter perfNow es"

text \<open>An example state: the initial one, with particle \<open>0\<close> moved to \<open>p\<close>.\<close>

definition oneParticleAt :: "Vector3 \<Rightarrow> world" where
  "oneParticleAt p =
     (initialWorld (\<lambda>k. 0))\<lparr>positions := (positions (initialWorld (\<lambda>k. 0)))[0 := p]\<rparr>"


text \<open>An example state: the audio started, the sphere moved to \<open>p\<close>.\<close>

definition sphereAt :: "Vector3 \<Rightarrow> world" where
  "sphereAt p = (startAudio (initialWorld (\<lambda>k. 0)))\<lparr>sphere_position := p\<rparr>"

section \<open>Arithmetic on finite numbers\<close>

lemma minus_Fin [simp]: "Fin a - Fin b = Fin (a - b)"
  by (simp add: minus_jsnum_def)

lemma Math_min_Fin [simp]: "Math_min (Fin a) (Fin b) = Fin (min a b)"
  by (simp add: Math_min_def min_def)

lemma Math_max_Fin [simp]: "Math_max (Fin a) (Fin b) = Fin (max a b)"
  by (simp add: Math_max_def max_def)

lemma length_vec_Fin [simp]:
  "length_vec (Vector3 (Fin a) (Fin b) (Fin c)) = Fin (sqrt (a * a + b * b + c * c))"
proof -
  have "\<not> a * a + b * b + c * c < 0"
    by (simp add: not_less add_nonneg_nonneg)
  then show ?thesis
    by (simp add: length_vec_def)
qed

lemma length_vec_nonneg:
  assumes "length_vec (Vector3 (Fin a) (Fin b) (Fin c)) = Fin d"
  shows "0 \<le> d"
proof -
  have "d = sqrt (a * a + b * b + c * c)"
    using assms by simp
  then show ?thesis
    by (simp add: add_nonneg_nonneg)
qed

lemma toVortex_Fin [simp]:
  "sub_vec vortexPos (Vector3 (Fin a) (Fin b) (Fin c)) = Vector3 (Fin (- a)) (Fin (- b)) (Fin (- 18 - c))"
  by (simp add: sub_vec_def vortexPos_def)

lemma normalize_vec_Fin:
  assumes "length_vec (Vector3 (Fin a) (Fin b) (Fin c)) = Fin d" and "d \<noteq> 0"
  shows "normalize_vec (Vector3 (Fin a) (Fin b) (Fin c)) =
    Vector3 (Fin (a * (1 / d))) (Fin (b * (1 / d))) (Fin (c * (1 / d)))"
  using assms unfolding normalize_vec_def divideScalar_def multiplyScalar_def js_or_def
  by simp

lemma gravK_Fin: "gravK (Fin d) = Fin (5 + 1800 * min 1 ((d - 10) / 400))"
  by (simp add: gravK_def)

lemma gravStrength_Fin:
  "d \<noteq> 0 \<Longrightarrow> gravStrength (Fin d) = Fin ((5 + 1800 * min 1 ((d - 10) / 400)) / (d * d))"
  by (simp add: gravStrength_def gravK_Fin)

text \<open>
  C8. The vignette opacity that a frame writes is a function of the distance of the
  sphere to the vortex at the start of the frame: \<open>0.92\<close> at distance \<open>0\<close>, the linear
  ramp \<open>0.92 * (1 - dist / 7)\<close> up to \<open>7\<close>, and exactly \<open>0\<close> from \<open>7\<close> on, as at \<open>14\<close>.
\<close>

theorem vignette_opacity_ramp:
  "vignette_opacity (animate time perfNow rnd s) =
     vignetteOpacity (length_vec (sub_vec vortexPos (sphere_position s))) \<and>
   vignetteOpacity (Fin d) =
     Fin (if d \<le> 0 then 0.92 else if d \<le> 7 then 0.92 * (1 - d / 7) else 0) \<and>
   vignetteOpacity (Fin 0) = Fin 0.92 \<and>
   vignetteOpacity (Fin 7) = Fin 0 \<and>
   vignetteOpacity (Fin 14) = Fin 0"
  by (simp add: animate_def vignetteOpacity_def vignetteStrength_def Let_def min_def max_def)

lemma setAudioIntensity_started:
  "audioStarted s \<Longrightarrow> setAudioIntensity (Fin v) s =
     s\<lparr>targetGain := Fin (0.13 + 0.95 * max 0 (min 1.2 v)),
       filterNode_frequency := Some (Fin (800 + 8000 * (1 - max 0 (min 1.2 v))))\<rparr>"
  by (simp add: setAudioIntensity_def Let_def)

lemma intensityAt_Fin: "intensityAt (Fin d) = Fin (2 - min 1 (d / 160))"
  by (simp add: intensityAt_def)

section \<open>What the particle loop leaves alone\<close>

lemma updateParticle_fields:
  "\<exists>k' ps vs. updateParticle rnd i (k, s) = (k', s\<lparr>positions := ps, velocities := vs\<rparr>)"
  unfolding updateParticle_def Let_def by auto

lemma foldl_updateParticle_fields:
  "\<exists>ps vs. snd (foldl (\<lambda>ks i. updateParticle rnd i ks) (k, s) js) =
     s\<lparr>positions := ps, velocities := vs\<rparr>"
proof (induction js arbitrary: k s)
  case Nil
  have "s = s\<lparr>positions := positions s, velocities := velocities s\<rparr>"
    by simp
  then show ?case
    by (metis foldl_Nil snd_conv)
next
  case (Cons j js)
  obtain k' ps vs where u: "updateParticle rnd j (k, s) = (k', s\<lparr>positions := ps, velocities := vs\<rparr>)"
    using updateParticle_fields by blast
  obtain ps' vs' where
    "snd (foldl (\<lambda>ks i. updateParticle rnd i ks) (k', s\<lparr>positions := ps, velocities := vs\<rparr>) js) =
       s\<lparr>positions := ps, velocities := vs\<rparr>\<lparr>positions := ps', velocities := vs'\<rparr>"
    using Cons.IH by blast
  then have "snd (foldl (\<lambda>ks i. updateParticle rnd i ks) (k, s) (j # js)) =
       s\<lparr>positions := ps', velocities := vs'\<rparr>"
    by (simp add: u)
  then show ?case
    by blast
qed

lemma updateParticles_fields:
  "\<exists>ps vs. updateParticles rnd s = s\<lparr>positions := ps, velocities := vs\<rparr>"
  unfolding updateParticles_def by (rule foldl_updateParticle_fields)

lemma updateParticles_sphere [simp]:
  "sphereVelocity (updateParticles rnd s) = sphereVelocity s"
  "sphere_position (updateParticles rnd s) = sphere_position s"
  using updateParticles_fields [of rnd s] by auto

lemma updateParticles_audio [simp]:
  "audioStarted (updateParticles rnd s) = audioStarted s"
  "targetGain (updateParticles rnd s) = targetGain s"
  "currentGain (updateParticles rnd s) = currentGain s"
  "fading (updateParticles rnd s) = fading s"
  "gainNode_gain (updateParticles rnd s) = gainNode_gain s"
  "filterNode_frequency (updateParticles rnd s) = filterNode_frequency s"
  "audio_playing (updateParticles rnd s) = audio_playing s"
  "stepCallbacks (updateParticles rnd s) = stepCallbacks s"
  using updateParticles_fields [of rnd s] by auto

lemma updateParticles_flags [simp]:
  "hasCollided (updateParticles rnd s) = hasCollided s"
  "console (updateParticles rnd s) = console s"
  "startAudio_listening (updateParticles rnd s) = startAudio_listening s"
  "moveTarget (updateParticles rnd s) = moveTarget s"
  using updateParticles_fields [of rnd s] by auto

section \<open>The audio intensity\<close>

text \<open>
  C7, as amended. With the audio started, \<open>setAudioIntensity\<close> clamps its input to
  \<open>[0, 1.2]\<close> (an infinite input goes to the nearer end) and sets \<open>targetGain\<close> to
  \<open>0.13 + 0.95 * clamped\<close> and the cutoff to \<open>800 + 8000 * (1 - clamped)\<close>, and nothing
  else; with the audio not started it changes nothing. It never writes \<open>currentGain\<close>.
\<close>

theorem setAudioIntensity_effect:
  "setAudioIntensity (Fin x) s =
     (if audioStarted s
      then s\<lparr>targetGain := Fin (0.13 + 0.95 * max 0 (min 1.2 x)),
             filterNode_frequency := Some (Fin (800 + 8000 * (1 - max 0 (min 1.2 x))))\<rparr>
      else s) \<and>
   0 \<le> max 0 (min 1.2 x) \<and> max 0 (min 1.2 x) \<le> 1.2 \<and>
   setAudioIntensity PosInf s =
     (if audioStarted s
      then s\<lparr>targetGain := Fin (0.13 + 0.95 * 1.2),
             filterNode_frequency := Some (Fin (800 + 8000 * (1 - 1.2)))\<rparr>
      else s) \<and>
   setAudioIntensity NegInf s =
     (if audioStarted s
      then s\<lparr>targetGain := Fin (0.13 + 0.95 * 0),
             filterNode_frequency := Some (Fin (800 + 8000 * (1 - 0)))\<rparr>
      else s) \<and>
   currentGain (setAudioIntensity v s) = currentGain s"
proof -
  have "max 0 (min 1.2 x) \<le> (1.2::real)"
    by simp
  then show ?thesis
    by (simp add: setAudioIntensity_def Let_def Math_min_def Math_max_def)
qed

theorem setAudioIntensity_effect_witness:
  "audioStarted (startAudio (initialWorld (\<lambda>k. 0))) \<and>
   targetGain (setAudioIntensity (Fin 0.5) (startAudio (initialWorld (\<lambda>k. 0)))) = Fin 0.605 \<and>
   filterNode_frequency (setAudioIntensity (Fin 0.5) (startAudio (initialWorld (\<lambda>k. 0)))) =
     Some (Fin 4800) \<and>
   currentGain (setAudioIntensity (Fin 0.5) (startAudio (initialWorld (\<lambda>k. 0)))) = Fin 0.7"
proof -
  have a: "audioStarted (startAudio (initialWorld (\<lambda>k. 0)))"
    by (simp add: startAudio_def initialWorld_def)
  have c: "currentGain (startAudio (initialWorld (\<lambda>k. 0))) = Fin 0.7"
    by (simp add: startAudio_def initialWorld_def)
  show ?thesis
    using a c setAudioIntensity_effect [of "0.5" "startAudio (initialWorld (\<lambda>k. 0))" "Fin 0.5"]
    by simp
qed

text \<open>
  C7 as stated fails before the audio is started: in the initial state
  \<open>setAudioIntensity 0\<close> leaves \<open>targetGain\<close> at \<open>1\<close> and creates no cutoff.
\<close>

theorem setAudioIntensity_unstarted_counterexample:
  "\<not> audioStarted (initialWorld (\<lambda>k. 0)) \<and>
   targetGain (setAudioIntensity (Fin 0) (initialWorld (\<lambda>k. 0))) = Fin 1 \<and>
   targetGain (setAudioIntensity (Fin 0) (initialWorld (\<lambda>k. 0))) \<noteq> Fin (0.13 + 0.95 * 0) \<and>
   filterNode_frequency (setAudioIntensity (Fin 0) (initialWorld (\<lambda>k. 0))) = None"
  by (simp add: setAudioIntensity_def initialWorld_def)

section \<open>Finite vectors and the clamp\<close>

lemma isFinite_iff: "isFinite a \<longleftrightarrow> (\<exists>x. a = Fin x)"
  by (cases a) simp_all

lemma finite_vec_iff: "finite_vec v \<longleftrightarrow> (\<exists>a b c. v = Vector3 (Fin a) (Fin b) (Fin c))"
  by (cases v) (auto simp: finite_vec_def isFinite_iff)

lemma finite_vec_Fin [simp]: "finite_vec (Vector3 (Fin a) (Fin b) (Fin c))"
  by (simp add: finite_vec_def)

lemma multiplyScalar_Fin [simp]:
  "multiplyScalar (Vector3 (Fin a) (Fin b) (Fin c)) (Fin k) =
     Vector3 (Fin (a * k)) (Fin (b * k)) (Fin (c * k))"
  by (simp add: multiplyScalar_def)

lemma add_vec_Fin [simp]:
  "add_vec (Vector3 (Fin a) (Fin b) (Fin c)) (Vector3 (Fin u) (Fin v) (Fin w)) =
     Vector3 (Fin (a + u)) (Fin (b + v)) (Fin (c + w))"
  by (simp add: add_vec_def)

lemma addScaledVector_Fin [simp]:
  "addScaledVector (Vector3 (Fin a) (Fin b) (Fin c)) (Vector3 (Fin u) (Fin v) (Fin w)) (Fin k) =
     Vector3 (Fin (a + u * k)) (Fin (b + v * k)) (Fin (c + w * k))"
  by (simp add: addScaledVector_def)

lemma sqrt_scaled:
  "sqrt (a * k * (a * k) + b * k * (b * k) + c * k * (c * k)) = \<bar>k\<bar> * sqrt (a * a + b * b + c * c)"
proof -
  have "a * k * (a * k) + b * k * (b * k) + c * k * (c * k) = k * k * (a * a + b * b + c * c)"
    by (simp add: algebra_simps)
  then show ?thesis
    by (simp add: real_sqrt_mult)
qed

lemma normalize_vec_finite:
  "normalize_vec (Vector3 (Fin a) (Fin b) (Fin c)) =
     multiplyScalar (Vector3 (Fin a) (Fin b) (Fin c))
       (Fin (1 / (if sqrt (a * a + b * b + c * c) = 0 then 1 else sqrt (a * a + b * b + c * c))))"
  unfolding normalize_vec_def divideScalar_def js_or_def
  by simp

lemma setLength_Fin:
  assumes "sqrt (a * a + b * b + c * c) \<noteq> 0"
  shows "setLength (Vector3 (Fin a) (Fin b) (Fin c)) (Fin m) =
    multiplyScalar (Vector3 (Fin a) (Fin b) (Fin c)) (Fin (m / sqrt (a * a + b * b + c * c)))"
  using assms unfolding setLength_def normalize_vec_def divideScalar_def js_or_def
  by simp

lemma clampSpeed_Fin:
  "clampSpeed (Vector3 (Fin a) (Fin b) (Fin c)) =
     (if 1.35 < sqrt (a * a + b * b + c * c)
      then multiplyScalar (Vector3 (Fin a) (Fin b) (Fin c)) (Fin (1.35 / sqrt (a * a + b * b + c * c)))
      else Vector3 (Fin a) (Fin b) (Fin c))"
proof (cases "1.35 < sqrt (a * a + b * b + c * c)")
  case True
  then have "sqrt (a * a + b * b + c * c) \<noteq> 0"
    by auto
  then show ?thesis
    using True by (simp add: clampSpeed_def maxSpeed_def setLength_Fin del: multiplyScalar_Fin)
next
  case False
  then show ?thesis
    by (simp add: clampSpeed_def maxSpeed_def)
qed

lemma length_clampSpeed_Fin:
  "length_vec (clampSpeed (Vector3 (Fin a) (Fin b) (Fin c))) =
     Fin (min (sqrt (a * a + b * b + c * c)) 1.35)"
proof (cases "1.35 < sqrt (a * a + b * b + c * c)")
  case True
  define l where "l = sqrt (a * a + b * b + c * c)"
  have l: "1.35 < l"
    using True by (simp add: l_def)
  then have "\<bar>1.35 / l\<bar> * l = 1.35"
    by simp
  then have "sqrt (a * (1.35 / l) * (a * (1.35 / l)) + b * (1.35 / l) * (b * (1.35 / l))
      + c * (1.35 / l) * (c * (1.35 / l))) = 1.35"
    unfolding sqrt_scaled l_def by simp
  moreover have "min l 1.35 = 1.35"
    using l by simp
  ultimately show ?thesis
    using True unfolding clampSpeed_Fin multiplyScalar_Fin length_vec_Fin l_def
    by simp
next
  case False
  then show ?thesis
    by (simp add: clampSpeed_Fin)
qed

lemma finite_vec_add: "finite_vec a \<Longrightarrow> finite_vec b \<Longrightarrow> finite_vec (add_vec a b)"
  by (auto simp: finite_vec_iff)

lemma finite_vec_multiplyScalar: "finite_vec a \<Longrightarrow> isFinite k \<Longrightarrow> finite_vec (multiplyScalar a k)"
  by (auto simp: finite_vec_iff isFinite_iff)

lemma finite_vec_addScaledVector:
  "finite_vec a \<Longrightarrow> finite_vec b \<Longrightarrow> isFinite k \<Longrightarrow> finite_vec (addScaledVector a b k)"
  by (auto simp: finite_vec_iff isFinite_iff)

lemma finite_vec_normalize: "finite_vec a \<Longrightarrow> finite_vec (normalize_vec a)"
  by (auto simp: finite_vec_iff normalize_vec_finite)

lemma finite_vec_clampSpeed: "finite_vec a \<Longrightarrow> finite_vec (clampSpeed a)"
  by (auto simp: finite_vec_iff clampSpeed_Fin)

lemma finite_vec_noise: "finite_vec (noise (Fin t) (Fin d))"
  by (simp add: noise_def noiseAngle_def noiseAmplitude_def Math_PI_def)

lemma finite_vec_moveVec: "finite_vec (moveVec (Fin mx, Fin mz))"
  by (simp add: moveVec_def playerAccel_def normalize_vec_finite)

lemma finite_vec_addPlayerInput:
  "finite_vec v \<Longrightarrow> finite_vec (addPlayerInput (Fin mx, Fin mz) v)"
  unfolding addPlayerInput_def using finite_vec_moveVec by (simp add: finite_vec_add)

lemma animate_sphere:
  "sphereVelocity (animate time perfNow rnd s) =
     nextVelocity (Fin time) (moveTarget s) (length_vec (sub_vec vortexPos (sphere_position s)))
       (normalize_vec (sub_vec vortexPos (sphere_position s))) (sphereVelocity s)"
  "sphere_position (animate time perfNow rnd s) =
     add_vec (sphere_position s) (sphereVelocity (animate time perfNow rnd s))"
  by (simp_all add: animate_def Let_def moveSphere_def engulf_def fadeOutAudio_def
      setAudioIntensity_def smoothGain_def)

lemma gravK_bounds:
  fixes d :: real
  assumes "0 \<le> d"
  shows "- 40 \<le> 5 + 1800 * min 1 ((d - 10) / 400)" and "5 + 1800 * min 1 ((d - 10) / 400) \<le> 1805"
proof -
  have "- (1 / 40) \<le> (d - 10) / 400"
    using assms by simp
  then have "- (1 / 40) \<le> min 1 ((d - 10) / 400)"
    by simp
  then show "- 40 \<le> 5 + 1800 * min 1 ((d - 10) / 400)"
    by linarith
  have "min 1 ((d - 10) / 400) \<le> 1"
    by simp
  then show "5 + 1800 * min 1 ((d - 10) / 400) \<le> 1805"
    by linarith
qed

text \<open>
  C1, as amended. The strength is \<open>K / dist\<^sup>2\<close> with the distance as measured: there is no
  clamp. For a finite position of the sphere other than the vortex, a finite velocity
  and a finite input, the strength is that finite number, of magnitude at most
  \<open>1805 / dist\<^sup>2\<close>, and the velocity and the position after the frame are finite, the
  velocity no longer than \<open>maxSpeed * friction\<close>.
\<close>

theorem gravity_unclamped:
  assumes pos: "finite_vec (sphere_position s)"
    and vel: "finite_vec (sphereVelocity s)"
    and mt: "moveTarget s = (Fin mx, Fin mz)"
    and len: "length_vec (sub_vec vortexPos (sphere_position s)) = Fin d"
    and away: "d \<noteq> 0"
  shows "gravStrength (Fin d) = Fin ((5 + 1800 * min 1 ((d - 10) / 400)) / (d * d)) \<and>
    \<bar>(5 + 1800 * min 1 ((d - 10) / 400)) / (d * d)\<bar> \<le> 1805 / (d * d) \<and>
    finite_vec (sphereVelocity (animate time perfNow rnd s)) \<and>
    finite_vec (sphere_position (animate time perfNow rnd s)) \<and>
    inRange 0 (1.35 * 0.992) (length_vec (sphereVelocity (animate time perfNow rnd s)))"
proof -
  obtain a b c where p: "sphere_position s = Vector3 (Fin a) (Fin b) (Fin c)"
    using pos by (auto simp: finite_vec_iff)
  have d0: "0 \<le> d"
    using len unfolding p toVortex_Fin by (rule length_vec_nonneg)
  have g: "gravStrength (Fin d) = Fin ((5 + 1800 * min 1 ((d - 10) / 400)) / (d * d))"
    using away by (rule gravStrength_Fin)
  have "\<bar>5 + 1800 * min 1 ((d - 10) / 400)\<bar> \<le> 1805"
    using gravK_bounds [OF d0] by simp
  then have bound: "\<bar>(5 + 1800 * min 1 ((d - 10) / 400)) / (d * d)\<bar> \<le> 1805 / (d * d)"
    by (simp add: divide_right_mono)
  have dir: "finite_vec (normalize_vec (sub_vec vortexPos (sphere_position s)))"
    unfolding p toVortex_Fin by (rule finite_vec_normalize) simp
  have "finite_vec (addScaledVector (sphereVelocity s)
      (normalize_vec (sub_vec vortexPos (sphere_position s))) (gravStrength (Fin d)))"
    using vel dir by (rule finite_vec_addScaledVector) (simp add: g)
  then have acc: "finite_vec (acceleratedVelocity (Fin time) (moveTarget s) (Fin d)
      (normalize_vec (sub_vec vortexPos (sphere_position s))) (sphereVelocity s))"
    unfolding acceleratedVelocity_def Let_def mt
    by (intro finite_vec_addPlayerInput finite_vec_add finite_vec_noise)
  then obtain x y z where xyz: "acceleratedVelocity (Fin time) (moveTarget s) (Fin d)
      (normalize_vec (sub_vec vortexPos (sphere_position s))) (sphereVelocity s) =
      Vector3 (Fin x) (Fin y) (Fin z)"
    by (auto simp: finite_vec_iff)
  have v: "sphereVelocity (animate time perfNow rnd s) =
    multiplyScalar (clampSpeed (Vector3 (Fin x) (Fin y) (Fin z))) friction"
    by (simp add: animate_sphere len nextVelocity_def xyz)
  have fv: "finite_vec (sphereVelocity (animate time perfNow rnd s))"
    unfolding v by (intro finite_vec_multiplyScalar finite_vec_clampSpeed) (simp_all add: friction_def)
  have fp: "finite_vec (sphere_position (animate time perfNow rnd s))"
    unfolding animate_sphere(2) using pos fv by (rule finite_vec_add)
  obtain x' y' z' where c: "clampSpeed (Vector3 (Fin x) (Fin y) (Fin z)) = Vector3 (Fin x') (Fin y') (Fin z')"
    using finite_vec_clampSpeed [of "Vector3 (Fin x) (Fin y) (Fin z)"] by (auto simp: finite_vec_iff)
  have "Fin (sqrt (x' * x' + y' * y' + z' * z')) = Fin (min (sqrt (x * x + y * y + z * z)) 1.35)"
    using length_clampSpeed_Fin [of x y z] unfolding c by simp
  then have le: "sqrt (x' * x' + y' * y' + z' * z') \<le> 1.35"
    by simp
  have "0 \<le> sqrt (x' * x' + y' * y' + z' * z')"
    by (simp add: add_nonneg_nonneg)
  then have "0 \<le> 0.992 * sqrt (x' * x' + y' * y' + z' * z')" 
    and "0.992 * sqrt (x' * x' + y' * y' + z' * z') \<le> 1.35 * 0.992"
    using le by simp_all
  then have r: "inRange 0 (1.35 * 0.992) (length_vec (sphereVelocity (animate time perfNow rnd s)))"
    unfolding v c friction_def multiplyScalar_Fin length_vec_Fin sqrt_scaled by simp
  show ?thesis
    using g bound fv fp r by simp
qed

lemma initial_toVortex:
  "length_vec (sub_vec vortexPos (sphere_position (initialWorld r))) = Fin 1018"
proof -
  show ?thesis
    using real_sqrt_abs2 [of 1018] by (simp add: initialWorld_def)
qed

theorem gravity_unclamped_witness:
  "finite_vec (sphere_position (initialWorld (\<lambda>k. 0))) \<and>
   finite_vec (sphereVelocity (initialWorld (\<lambda>k. 0))) \<and>
   moveTarget (initialWorld (\<lambda>k. 0)) = (Fin 0, Fin 0) \<and>
   length_vec (sub_vec vortexPos (sphere_position (initialWorld (\<lambda>k. 0)))) = Fin 1018 \<and>
   (1018::real) \<noteq> 0 \<and>
   gravStrength (Fin 1018) = Fin (1805 / (1018 * 1018)) \<and>
   finite_vec (sphereVelocity (animate 0 0 (\<lambda>k. 0) (initialWorld (\<lambda>k. 0)))) \<and>
   finite_vec (sphere_position (animate 0 0 (\<lambda>k. 0) (initialWorld (\<lambda>k. 0)))) \<and>
   inRange 0 (1.35 * 0.992)
     (length_vec (sphereVelocity (animate 0 0 (\<lambda>k. 0) (initialWorld (\<lambda>k. 0)))))"
proof -
  have pos: "finite_vec (sphere_position (initialWorld (\<lambda>k. 0)))"
    by (simp add: initialWorld_def)
  have vel: "finite_vec (sphereVelocity (initialWorld (\<lambda>k. 0)))"
    by (simp add: initialWorld_def)
  have mt: "moveTarget (initialWorld (\<lambda>k. 0)) = (Fin 0, Fin 0)"
    by (simp add: initialWorld_def)
  have away: "(1018::real) \<noteq> 0"
    by simp
  show ?thesis
    using pos vel mt initial_toVortex [of "\<lambda>k. 0"]
      gravity_unclamped [OF pos vel mt initial_toVortex away, of 0 0 "\<lambda>k. 0"]
    by simp
qed

lemma plus_NaN [simp]: "a + NaN = NaN"
  by (cases a) simp_all

lemma gravStrength_unbounded: "\<exists>d. 0 < d \<and> gravStrength (Fin d) < Fin (- B)"
proof -
  define d :: real where "d = 1 / (\<bar>B\<bar> + 1)"
  have d0: "0 < d" and d1: "d \<le> 1"
    by (simp_all add: d_def)
  have dd: "d * d \<le> d"
    using d0 d1 by (simp add: mult_left_le)
  have m: "min 1 ((d - 10) / 400) = (d - 10) / 400"
    using d1 by (simp add: min_def)
  have "(d - 10) / 400 \<le> - (9 / 400)"
    using d1 by simp
  then have k: "5 + 1800 * min 1 ((d - 10) / 400) \<le> - 35"
    unfolding m by linarith
  have "(5 + 1800 * min 1 ((d - 10) / 400)) / (d * d) \<le> - 35 / (d * d)"
    by (rule divide_right_mono [OF k]) (use d0 in simp)
  also have "- 35 / (d * d) \<le> - 35 / d"
    using dd d0 by (simp add: frac_le)
  also have "- 35 / d = - 35 * (\<bar>B\<bar> + 1)"
    by (simp add: d_def)
  also have "\<dots> < - B"
    by simp
  finally have "(5 + 1800 * min 1 ((d - 10) / 400)) / (d * d) < - B" .
  moreover have "gravStrength (Fin d) = Fin ((5 + 1800 * min 1 ((d - 10) / 400)) / (d * d))"
    using d0 by (intro gravStrength_Fin) simp
  ultimately show ?thesis
    using d0 by auto
qed

text \<open>
  C1 as stated fails with the sphere at the vortex: the distance is \<open>0\<close>, the strength
  \<open>-Infinity\<close>, and the velocity and the position after the frame are \<open>NaN\<close>. Nor is the
  strength bounded near the vortex: it falls below every bound.
\<close>

theorem gravity_at_vortex_counterexample:
  "length_vec (sub_vec vortexPos (sphere_position (initialWorld (\<lambda>k. 0)\<lparr>sphere_position := vortexPos\<rparr>)))
     = Fin 0 \<and>
   gravStrength (Fin 0) = NegInf \<and>
   sphereVelocity (animate 0 0 (\<lambda>k. 0) (initialWorld (\<lambda>k. 0)\<lparr>sphere_position := vortexPos\<rparr>))
     = Vector3 NaN NaN NaN \<and>
   sphere_position (animate 0 0 (\<lambda>k. 0) (initialWorld (\<lambda>k. 0)\<lparr>sphere_position := vortexPos\<rparr>))
     = Vector3 NaN NaN NaN \<and>
   (\<forall>B. \<exists>d. 0 < d \<and> gravStrength (Fin d) < Fin (- B))"
proof -
  have len: "length_vec (sub_vec vortexPos vortexPos) = Fin 0"
    by (simp add: vortexPos_def sub_vec_def length_vec_def)
  have g: "gravStrength (Fin 0) = NegInf"
    by (simp add: gravStrength_def gravK_def)
  have dir: "normalize_vec (sub_vec vortexPos vortexPos) = Vector3 (Fin 0) (Fin 0) (Fin 0)"
    by (simp add: vortexPos_def sub_vec_def normalize_vec_finite)
  have acc: "acceleratedVelocity (Fin 0) (Fin 0, Fin 0) (Fin 0) (Vector3 (Fin 0) (Fin 0) (Fin 0))
      (Vector3 (Fin 0) (Fin 0) (Fin 0)) = Vector3 NaN NaN NaN"
    by (simp add: acceleratedVelocity_def g addScaledVector_def add_vec_def addPlayerInput_def)
  have v: "nextVelocity (Fin 0) (Fin 0, Fin 0) (Fin 0) (Vector3 (Fin 0) (Fin 0) (Fin 0))
      (Vector3 (Fin 0) (Fin 0) (Fin 0)) = Vector3 NaN NaN NaN"
    by (simp add: nextVelocity_def acc clampSpeed_def length_vec_def maxSpeed_def multiplyScalar_def)
  have vel: "sphereVelocity (animate 0 0 (\<lambda>k. 0) (initialWorld (\<lambda>k. 0)\<lparr>sphere_position := vortexPos\<rparr>))
     = Vector3 NaN NaN NaN"
    by (simp add: animate_sphere(1) len dir) (simp add: initialWorld_def v)
  have pos: "sphere_position (animate 0 0 (\<lambda>k. 0) (initialWorld (\<lambda>k. 0)\<lparr>sphere_position := vortexPos\<rparr>))
     = Vector3 NaN NaN NaN"
    unfolding animate_sphere(2) vel by (simp add: add_vec_def)
  show ?thesis
    using len g vel pos gravStrength_unbounded by simp
qed




section \<open>Single precision\<close>

lemma roundTiesToEven_le:
  assumes "y \<le> of_int N"
  shows "roundTiesToEven y \<le> N"
proof -
  have f: "\<lfloor>y\<rfloor> \<le> N"
    using assms by (simp add: floor_le_iff)
  show ?thesis
  proof (cases "y = of_int \<lfloor>y\<rfloor>")
    case True
    then have "y - of_int \<lfloor>y\<rfloor> = 0"
      by simp
    then show ?thesis
      using f by (simp add: roundTiesToEven_def Let_def)
  next
    case False
    then have "of_int \<lfloor>y\<rfloor> < y"
      using of_int_floor_le [of y] by linarith
    then have "of_int \<lfloor>y\<rfloor> < (of_int N :: real)"
      using assms by linarith
    then have "\<lfloor>y\<rfloor> + 1 \<le> N"
      by simp
    then show ?thesis
      using f by (simp add: roundTiesToEven_def Let_def)
  qed
qed

lemma roundTiesToEven_ge:
  assumes "of_int M \<le> y"
  shows "M \<le> roundTiesToEven y"
proof -
  have "M \<le> \<lfloor>y\<rfloor>"
    using assms by (simp add: le_floor_iff)
  then show ?thesis
    by (simp add: roundTiesToEven_def Let_def)
qed

lemma roundTiesToEven_of_int [simp]: "roundTiesToEven (of_int n) = n"
  by (simp add: roundTiesToEven_def)

lemma float32_exponent_le:
  assumes "x \<noteq> 0" and "\<bar>x\<bar> \<le> of_int b" and "b < 2 ^ 24"
  shows "float32_exponent x \<le> 23"
proof -
  have "\<bar>x\<bar> < 2 ^ 24"
  proof -
    have "(of_int b :: real) < of_int (2 ^ 24)"
      using assms(3) by (simp only: of_int_less_iff)
    then show ?thesis
      using assms(2) by simp
  qed
  then have "\<bar>x\<bar> < 2 powr 24"
    by simp
  then have "log 2 \<bar>x\<bar> < 24"
    using assms(1) by (simp add: log_less_iff)
  then have "\<lfloor>log 2 \<bar>x\<bar>\<rfloor> < 24"
    by (simp add: floor_less_iff)
  then show ?thesis
    by (simp add: float32_exponent_def)
qed

lemma ulp_divides_int:
  assumes "e \<le> 23"
  shows "\<exists>m :: int. (of_int b :: real) / 2 powr (of_int e - 23) = of_int m"
proof -
  have "(of_int b :: real) / 2 powr (of_int e - 23) = of_int b * 2 powr (of_int (23 - e))"
    by (simp add: powr_diff field_simps powr_minus_divide)
  also have "2 powr (of_int (23 - e)) = (2::real) ^ nat (23 - e)"
  proof -
    have "(of_int (23 - e) :: real) = real (nat (23 - e))"
      using assms by simp
    then show ?thesis
      by (simp only: powr_realpow [of 2, simplified])
  qed
  also have "of_int b * (2::real) ^ nat (23 - e) = of_int (b * 2 ^ nat (23 - e))"
    by simp
  finally show ?thesis
    by blast
qed

lemma fround_real_le:
  assumes "x \<le> of_int b" and "0 \<le> b" and "b < 2 ^ 24"
  shows "fround_real x \<le> of_int b"
proof (cases "0 < x")
  case True
  define u :: real where "u = 2 powr (of_int (float32_exponent x) - 23)"
  have u: "0 < u"
    by (simp add: u_def)
  have "float32_exponent x \<le> 23"
    using True assms by (intro float32_exponent_le [of x b]) simp_all
  then obtain m :: int where m: "of_int b / u = of_int m"
    unfolding u_def using ulp_divides_int by blast
  have "x / u \<le> of_int b / u"
    using assms(1) u by (simp add: divide_right_mono)
  then have "roundTiesToEven (x / u) \<le> m"
    unfolding m by (rule roundTiesToEven_le)
  then have "of_int (roundTiesToEven (x / u)) * u \<le> of_int m * u"
    using u by simp
  also have "of_int m * u = of_int b"
    using m u by (simp add: field_simps)
  finally show ?thesis
    using True by (simp add: fround_real_def Let_def u_def)
next
  case False
  show ?thesis
  proof (cases "x = 0")
    case True
    then show ?thesis
      using assms(2) by (simp add: fround_real_def)
  next
    case nz: False
    define u :: real where "u = 2 powr (of_int (float32_exponent x) - 23)"
    have u: "0 < u"
      by (simp add: u_def)
    have "x / u \<le> of_int 0"
      using False u by (simp add: divide_le_0_iff)
    then have "roundTiesToEven (x / u) \<le> 0"
      by (rule roundTiesToEven_le)
    then have "of_int (roundTiesToEven (x / u)) * u \<le> 0"
      using u by (simp add: mult_le_0_iff)
    then show ?thesis
      using nz assms(2) by (simp add: fround_real_def Let_def u_def)
  qed
qed

lemma fround_real_ge:
  assumes "of_int b \<le> x" and "b \<le> 0" and "- (2 ^ 24) < b"
  shows "of_int b \<le> fround_real x"
proof (cases "x < 0")
  case True
  define u :: real where "u = 2 powr (of_int (float32_exponent x) - 23)"
  have u: "0 < u"
    by (simp add: u_def)
  have "float32_exponent x \<le> 23"
    using True assms by (intro float32_exponent_le [of x "- b"]) simp_all
  then obtain m :: int where m: "of_int b / u = of_int m"
    unfolding u_def using ulp_divides_int by blast
  have "of_int b / u \<le> x / u"
    using assms(1) u by (simp add: divide_right_mono)
  then have "m \<le> roundTiesToEven (x / u)"
    unfolding m by (rule roundTiesToEven_ge)
  then have "of_int m * u \<le> of_int (roundTiesToEven (x / u)) * u"
    using u by simp
  moreover have "of_int m * u = of_int b"
    using m u by (simp add: field_simps)
  ultimately have "of_int b \<le> of_int (roundTiesToEven (x / u)) * u"
    by linarith
  then show ?thesis
    using True by (simp add: fround_real_def Let_def u_def)
next
  case False
  show ?thesis
  proof (cases "x = 0")
    case True
    then show ?thesis
      using assms(2) by (simp add: fround_real_def)
  next
    case nz: False
    define u :: real where "u = 2 powr (of_int (float32_exponent x) - 23)"
    have u: "0 < u"
      by (simp add: u_def)
    have "of_int 0 \<le> x / u"
      using False u by simp
    then have "0 \<le> roundTiesToEven (x / u)"
      by (rule roundTiesToEven_ge)
    then have "0 \<le> of_int (roundTiesToEven (x / u)) * u"
      using u by simp
    then show ?thesis
      using nz assms(2) by (simp add: fround_real_def Let_def u_def)
  qed
qed

lemma fround_real_of_int:
  assumes "\<bar>b\<bar> < 2 ^ 24"
  shows "fround_real (of_int b) = of_int b"
proof (cases "b = 0")
  case True
  then show ?thesis
    by (simp add: fround_real_def)
next
  case False
  define u :: real where "u = 2 powr (of_int (float32_exponent (of_int b)) - 23)"
  have u: "0 < u"
    by (simp add: u_def)
  have "float32_exponent (of_int b) \<le> 23"
    using False assms by (intro float32_exponent_le [of _ "\<bar>b\<bar>"]) simp_all
  then obtain m :: int where m: "of_int b / u = of_int m"
    unfolding u_def using ulp_divides_int by blast
  have "of_int (roundTiesToEven (of_int b / u)) * u = of_int m * u"
    by (simp add: m)
  also have "of_int m * u = of_int b"
    using m u by (simp add: field_simps)
  finally show ?thesis
    using False by (simp add: fround_real_def Let_def u_def)
qed

lemma fround_real_binade:
  assumes "2 powr of_int e \<le> \<bar>x\<bar>" and "\<bar>x\<bar> < 2 powr (of_int e + 1)" and "- 126 \<le> e"
  shows "fround_real x =
    of_int (roundTiesToEven (x / 2 powr (of_int e - 23))) * 2 powr (of_int e - 23)"
proof -
  have x: "0 < \<bar>x\<bar>"
    using assms(1) by (smt (verit) powr_gt_zero)
  then have "\<lfloor>log 2 \<bar>x\<bar>\<rfloor> = e"
    using assms(1,2) by (simp add: floor_log_eq_powr_iff)
  then have "float32_exponent x = e"
    using assms(3) by (simp add: float32_exponent_def)
  then show ?thesis
    using x by (simp add: fround_real_def Let_def)
qed

lemma ulp_3: "(2::real) powr (of_int 3 - 23) = 1 / 1048576"
  by (simp add: powr_minus_divide)

lemma fround_example: "fround_real (- 8.02328) = - (8413019 / 1048576)"
proof -
  have "fround_real (- 8.02328) =
    of_int (roundTiesToEven (- 8.02328 / 2 powr (of_int 3 - 23))) * 2 powr (of_int 3 - 23)"
    by (rule fround_real_binade) simp_all
  then have "fround_real (- 8.02328) =
    of_int (roundTiesToEven (- 8.02328 / (1 / 1048576))) * (1 / 1048576)"
    by (simp only: ulp_3)
  moreover have "roundTiesToEven (- 8.02328 / (1 / 1048576)) = - 8413019"
    by (simp add: roundTiesToEven_def Let_def)
  ultimately show ?thesis
    by simp
qed


section \<open>The particles\<close>

lemma updateParticle_arrays:
  "positions (snd (updateParticle rnd j (k, s))) =
     (positions s)[j := float32_vec (fst (snd (moveParticle rnd k (positions s ! j) (velocities s ! j))))]"
  "velocities (snd (updateParticle rnd j (k, s))) =
     (velocities s)[j := snd (snd (moveParticle rnd k (positions s ! j) (velocities s ! j)))]"
  by (simp_all add: updateParticle_def Let_def)

lemma foldl_updateParticle_nth:
  assumes "distinct js"
    and "\<forall>j\<in>set js. j < length (positions s) \<and> j < length (velocities s)"
  shows "length (positions (snd (foldl (\<lambda>ks i. updateParticle rnd i ks) (k, s) js))) =
      length (positions s) \<and>
    length (velocities (snd (foldl (\<lambda>ks i. updateParticle rnd i ks) (k, s) js))) =
      length (velocities s) \<and>
    (\<forall>i. i \<notin> set js \<longrightarrow>
      positions (snd (foldl (\<lambda>ks i. updateParticle rnd i ks) (k, s) js)) ! i = positions s ! i \<and>
      velocities (snd (foldl (\<lambda>ks i. updateParticle rnd i ks) (k, s) js)) ! i = velocities s ! i) \<and>
    (\<forall>i\<in>set js. \<exists>k'.
      positions (snd (foldl (\<lambda>ks i. updateParticle rnd i ks) (k, s) js)) ! i =
        float32_vec (fst (snd (moveParticle rnd k' (positions s ! i) (velocities s ! i)))) \<and>
      velocities (snd (foldl (\<lambda>ks i. updateParticle rnd i ks) (k, s) js)) ! i =
        snd (snd (moveParticle rnd k' (positions s ! i) (velocities s ! i))))"
  using assms
proof (induction js arbitrary: k s)
  case Nil
  then show ?case
    by simp
next
  case (Cons j js)
  obtain k1 s1 where u: "updateParticle rnd j (k, s) = (k1, s1)"
    by (cases "updateParticle rnd j (k, s)")
  have p1: "positions s1 =
      (positions s)[j := float32_vec (fst (snd (moveParticle rnd k (positions s ! j) (velocities s ! j))))]"
    and v1: "velocities s1 =
      (velocities s)[j := snd (snd (moveParticle rnd k (positions s ! j) (velocities s ! j)))]"
    using updateParticle_arrays [of rnd j k s] by (simp_all add: u)
  have j: "j < length (positions s)" "j < length (velocities s)" "j \<notin> set js"
    using Cons.prems by simp_all
  have "distinct js"
    and "\<forall>i\<in>set js. i < length (positions s1) \<and> i < length (velocities s1)"
    using Cons.prems by (simp_all add: p1 v1)
  note ih = Cons.IH [OF this, of k1]
  show ?case
  proof (intro conjI allI ballI impI)
    fix i
    assume "i \<notin> set (j # js)"
    then have "i \<notin> set js" "i \<noteq> j"
      by simp_all
    then show
      "positions (snd (foldl (\<lambda>ks i. updateParticle rnd i ks) (k, s) (j # js))) ! i = positions s ! i"
      "velocities (snd (foldl (\<lambda>ks i. updateParticle rnd i ks) (k, s) (j # js))) ! i = velocities s ! i"
      using ih by (simp_all add: u p1 v1)
  next
    fix i
    assume "i \<in> set (j # js)"
    then consider "i = j" | "i \<in> set js" "i \<noteq> j"
      using j(3) by auto
    then show "\<exists>k'.
      positions (snd (foldl (\<lambda>ks i. updateParticle rnd i ks) (k, s) (j # js))) ! i =
        float32_vec (fst (snd (moveParticle rnd k' (positions s ! i) (velocities s ! i)))) \<and>
      velocities (snd (foldl (\<lambda>ks i. updateParticle rnd i ks) (k, s) (j # js))) ! i =
        snd (snd (moveParticle rnd k' (positions s ! i) (velocities s ! i)))"
    proof cases
      case 1
      then show ?thesis
        using ih j by (intro exI [of _ k]) (simp add: u p1 v1)
    next
      case 2
      have "positions s1 ! i = positions s ! i" "velocities s1 ! i = velocities s ! i"
        using 2 by (simp_all add: p1 v1)
      moreover obtain k' where
        "positions (snd (foldl (\<lambda>ks i. updateParticle rnd i ks) (k1, s1) js)) ! i =
          float32_vec (fst (snd (moveParticle rnd k' (positions s1 ! i) (velocities s1 ! i))))"
        "velocities (snd (foldl (\<lambda>ks i. updateParticle rnd i ks) (k1, s1) js)) ! i =
          snd (snd (moveParticle rnd k' (positions s1 ! i) (velocities s1 ! i)))"
        using ih 2(1) by blast
      ultimately show ?thesis
        by (intro exI [of _ k']) (simp add: u)
    qed
  qed (use ih in \<open>simp_all add: u p1 v1\<close>)
qed

lemma updateParticles_nth:
  assumes "length (positions s) = PARTICLE_COUNT" and "length (velocities s) = PARTICLE_COUNT"
    and "i < PARTICLE_COUNT"
  shows "length (positions (updateParticles rnd s)) = PARTICLE_COUNT"
    and "length (velocities (updateParticles rnd s)) = PARTICLE_COUNT"
    and "\<exists>k. positions (updateParticles rnd s) ! i =
        float32_vec (fst (snd (moveParticle rnd k (positions s ! i) (velocities s ! i)))) \<and>
      velocities (updateParticles rnd s) ! i =
        snd (snd (moveParticle rnd k (positions s ! i) (velocities s ! i)))"
proof -
  have "distinct [0..<PARTICLE_COUNT]"
    and "\<forall>j\<in>set [0..<PARTICLE_COUNT]. j < length (positions s) \<and> j < length (velocities s)"
    using assms by simp_all
  note f = foldl_updateParticle_nth [OF this, of rnd 0]
  show "length (positions (updateParticles rnd s)) = PARTICLE_COUNT"
    and "length (velocities (updateParticles rnd s)) = PARTICLE_COUNT"
    using f assms by (simp_all add: updateParticles_def)
  have "i \<in> set [0..<PARTICLE_COUNT]"
    using assms by simp
  then show "\<exists>k. positions (updateParticles rnd s) ! i =
        float32_vec (fst (snd (moveParticle rnd k (positions s ! i) (velocities s ! i)))) \<and>
      velocities (updateParticles rnd s) ! i =
        snd (snd (moveParticle rnd k (positions s ! i) (velocities s ! i)))"
    using f unfolding updateParticles_def by blast
qed


lemma animate_particles:
  "\<exists>s'. positions s' = positions s \<and> velocities s' = velocities s \<and>
     positions (animate time perfNow rnd s) = positions (updateParticles rnd s') \<and>
     velocities (animate time perfNow rnd s) = velocities (updateParticles rnd s')"
  unfolding animate_def Let_def
  by (intro exI [of _ "engulf perfNow (length_vec (sub_vec vortexPos (sphere_position s)))
        (moveSphere (Fin time) (length_vec (sub_vec vortexPos (sphere_position s)))
          (normalize_vec (sub_vec vortexPos (sphere_position s)))
          (smoothGain (setAudioIntensity (intensityAt (length_vec (sub_vec vortexPos (sphere_position s)))) s)))"])
    (simp add: engulf_def fadeOutAudio_def moveSphere_def smoothGain_def setAudioIntensity_def Let_def)

lemma attract_Fin:
  assumes "d \<noteq> 0"
  shows "attract (Fin d) =
    Fin ((if d < 23 then 1.6 else 1) * max 0.015 (min 0.07 (0.011 + 0.18 / (d * d))))"
  using assms by (simp add: attract_def Let_def)

lemma attract_positive:
  "0 < (if d < 23 then 1.6 else 1) * max 0.015 (min 0.07 (0.011 + 0.18 / (d * d)))" (is "0 < ?a")
  for d :: real
proof -
  have "(0::real) < max 0.015 (min 0.07 (0.011 + 0.18 / (d * d)))"
    by (simp add: less_max_iff_disj)
  then show ?thesis
    by simp
qed

lemma spawn_in_volume:
  assumes "\<forall>n. 0 \<le> rnd n \<and> rnd n < 1"
  shows "inRange (- 750) 750 (vx (spawn rnd k)) \<and> inRange (- 375) 375 (vy (spawn rnd k)) \<and>
    inRange (- 760) 740 (vz (spawn rnd k))"
proof -
  have "0 \<le> rnd k \<and> rnd k < 1" "0 \<le> rnd (k + 1) \<and> rnd (k + 1) < 1" "0 \<le> rnd (k + 2) \<and> rnd (k + 2) < 1"
    using assms by blast+
  then show ?thesis
    by (simp add: spawn_def RANGE_def)
qed

lemma moveParticle_Fin:
  assumes d: "d = sqrt (x * x + y * y + (- 18 - z) * (- 18 - z))"
    and att: "att = (if d < 23 then 1.6 else 1) * max 0.015 (min 0.07 (0.011 + 0.18 / (d * d)))"
  shows "moveParticle rnd k (Vector3 (Fin x) (Fin y) (Fin z)) vel =
    (if d < 3.5 then (k + 3, spawn rnd k, Vector3 (Fin 0) (Fin 0) (Fin 0))
     else (k,
       add_vec (Vector3 (Fin x) (Fin y) (Fin z))
         (multiplyScalar (add_vec vel
           (multiplyScalar (normalize_vec (sub_vec vortexPos (Vector3 (Fin x) (Fin y) (Fin z)))) (Fin att)))
           (Fin 0.97)),
       multiplyScalar (add_vec vel
         (multiplyScalar (normalize_vec (sub_vec vortexPos (Vector3 (Fin x) (Fin y) (Fin z)))) (Fin att)))
         (Fin 0.97)))"
proof (cases "d < 3.5")
  case True
  then show ?thesis
    by (simp add: moveParticle_def Let_def flip: d)
next
  case False
  then have "d \<noteq> 0"
    by auto
  then have "attract (Fin d) = Fin att"
    unfolding att by (rule attract_Fin)
  then show ?thesis
    using False by (simp add: moveParticle_def Let_def flip: d)
qed

lemma pull_length:
  assumes d: "d = sqrt (x * x + y * y + (- 18 - z) * (- 18 - z))" and "d \<noteq> 0" and "0 < att"
  shows "length_vec (multiplyScalar
      (normalize_vec (sub_vec vortexPos (Vector3 (Fin x) (Fin y) (Fin z)))) (Fin att)) = Fin att"
proof -
  have d0: "0 < d"
    using assms(2) unfolding d by (simp add: less_le add_nonneg_nonneg)
  have n: "normalize_vec (sub_vec vortexPos (Vector3 (Fin x) (Fin y) (Fin z))) =
    Vector3 (Fin (- x * (1 / d))) (Fin (- y * (1 / d))) (Fin ((- 18 - z) * (1 / d)))"
    using assms(2) by (simp add: normalize_vec_finite flip: d)
  have u: "\<bar>1 / d\<bar> * sqrt (- x * - x + - y * - y + (- 18 - z) * (- 18 - z)) = 1"
    using d0 by (simp flip: d)
  have "sqrt (- x * (1 / d) * att * (- x * (1 / d) * att) + - y * (1 / d) * att * (- y * (1 / d) * att)
      + (- 18 - z) * (1 / d) * att * ((- 18 - z) * (1 / d) * att)) = \<bar>att\<bar> * 1"
    unfolding sqrt_scaled u ..
  then show ?thesis
    unfolding n multiplyScalar_Fin length_vec_Fin using assms(3) by simp
qed


lemma Math_fround_inRange:
  assumes "of_int lo \<le> x" and "x \<le> of_int hi" and "lo \<le> 0" and "0 \<le> hi"
    and "- (2 ^ 24) < lo" and "hi < 2 ^ 24"
  shows "inRange (of_int lo) (of_int hi) (Math_fround (Fin x))"
proof -
  have l: "of_int lo \<le> fround_real x"
    using assms(1,3,5) by (rule fround_real_ge)
  have h: "fround_real x \<le> of_int hi"
    using assms(2,4,6) by (rule fround_real_le)
  have "(of_int hi :: real) < of_int (2 ^ 24)" and "(of_int (- (2 ^ 24)) :: real) < of_int lo"
    using assms(5,6) by (simp_all only: of_int_less_iff)
  then have "\<bar>fround_real x\<bar> < 2 ^ 24"
    using l h by simp
  also have "(2::real) ^ 24 \<le> 2 ^ 128"
    by simp
  finally have "\<not> 2 ^ 128 \<le> \<bar>fround_real x\<bar>"
    by simp
  then show ?thesis
    using l h by simp
qed

lemma stored_spawn_in_volume:
  assumes "\<forall>n. 0 \<le> rnd n \<and> rnd n < 1"
  shows "inRange (- 750) 750 (vx (float32_vec (spawn rnd k))) \<and>
    inRange (- 375) 375 (vy (float32_vec (spawn rnd k))) \<and>
    inRange (- 760) 740 (vz (float32_vec (spawn rnd k)))"
proof -
  have r: "0 \<le> rnd k \<and> rnd k < 1" "0 \<le> rnd (k + 1) \<and> rnd (k + 1) < 1"
    "0 \<le> rnd (k + 2) \<and> rnd (k + 2) < 1"
    using assms by blast+
  have "inRange (of_int (- 750)) (of_int 750) (Math_fround (Fin ((rnd k - 0.5) * 1500)))"
    using r(1) by (intro Math_fround_inRange) simp_all
  moreover have "inRange (of_int (- 375)) (of_int 375)
      (Math_fround (Fin ((rnd (k + 1) - 0.5) * 1500 * 0.5)))"
    using r(2) by (intro Math_fround_inRange) simp_all
  moreover have "inRange (of_int (- 760)) (of_int 740)
      (Math_fround (Fin ((rnd (k + 2) - 0.5) * 1500 - 10)))"
    using r(3) by (intro Math_fround_inRange) simp_all
  ultimately show ?thesis
    by (simp add: float32_vec_def spawn_def RANGE_def)
qed

text \<open>
  C4. After a frame both particle arrays still have \<open>PARTICLE_COUNT\<close> entries. For a
  particle at distance \<open>d\<close> from the vortex before the frame: when \<open>d < 3.5\<close> its velocity
  is exactly zero and its position is drawn from three fresh random values and
  stored, inside the spawn volume; otherwise the vector added to its velocity has the
  length \<open>clamp(0.011 + 0.18 / d\<^sup>2, 0.015, 0.07)\<close>, times \<open>1.6\<close> when \<open>d < 23\<close>, and points to
  the vortex, the velocity is then multiplied by \<open>0.97\<close> and added to the position, and
  the sum is what \<open>setXYZ\<close> stores, in the single precision of the position array.
\<close>

theorem particle_update:
  assumes len: "length (positions s) = PARTICLE_COUNT" "length (velocities s) = PARTICLE_COUNT"
    and i: "i < PARTICLE_COUNT"
    and p: "positions s ! i = Vector3 (Fin x) (Fin y) (Fin z)"
    and d: "d = sqrt (x * x + y * y + (- 18 - z) * (- 18 - z))"
    and att: "att = (if d < 23 then 1.6 else 1) * max 0.015 (min 0.07 (0.011 + 0.18 / (d * d)))"
    and rnd: "\<forall>n. 0 \<le> rnd n \<and> rnd n < 1"
  shows "length (positions (animate time perfNow rnd s)) = PARTICLE_COUNT \<and>
    length (velocities (animate time perfNow rnd s)) = PARTICLE_COUNT \<and>
    length_vec (sub_vec vortexPos (positions s ! i)) = Fin d \<and>
    (if d < 3.5
     then velocities (animate time perfNow rnd s) ! i = Vector3 (Fin 0) (Fin 0) (Fin 0) \<and>
       (\<exists>k. positions (animate time perfNow rnd s) ! i =
          float32_vec
            (Vector3 (Fin ((rnd k - 0.5) * 1500)) (Fin ((rnd (k + 1) - 0.5) * 1500 * 0.5))
              (Fin ((rnd (k + 2) - 0.5) * 1500 - 10)))) \<and>
       inRange (- 750) 750 (vx (positions (animate time perfNow rnd s) ! i)) \<and>
       inRange (- 375) 375 (vy (positions (animate time perfNow rnd s) ! i)) \<and>
       inRange (- 760) 740 (vz (positions (animate time perfNow rnd s) ! i))
     else attract (Fin d) = Fin att \<and>
       length_vec (multiplyScalar (normalize_vec (sub_vec vortexPos (positions s ! i)))
         (attract (Fin d))) = Fin att \<and>
       velocities (animate time perfNow rnd s) ! i =
         multiplyScalar
           (add_vec (velocities s ! i)
             (multiplyScalar (normalize_vec (sub_vec vortexPos (positions s ! i))) (attract (Fin d))))
           (Fin 0.97) \<and>
       positions (animate time perfNow rnd s) ! i =
         float32_vec (add_vec (positions s ! i) (velocities (animate time perfNow rnd s) ! i)))"
proof -
  obtain s' where s': "positions s' = positions s" "velocities s' = velocities s"
    "positions (animate time perfNow rnd s) = positions (updateParticles rnd s')"
    "velocities (animate time perfNow rnd s) = velocities (updateParticles rnd s')"
    using animate_particles by blast
  have len': "length (positions s') = PARTICLE_COUNT" "length (velocities s') = PARTICLE_COUNT"
    using len s' by simp_all
  have l1: "length (positions (animate time perfNow rnd s)) = PARTICLE_COUNT"
    and l2: "length (velocities (animate time perfNow rnd s)) = PARTICLE_COUNT"
    using updateParticles_nth(1,2) [OF len' i] s' by simp_all
  obtain k where k:
    "positions (animate time perfNow rnd s) ! i =
       float32_vec (fst (snd (moveParticle rnd k (positions s ! i) (velocities s ! i))))"
    "velocities (animate time perfNow rnd s) ! i =
       snd (snd (moveParticle rnd k (positions s ! i) (velocities s ! i)))"
    using updateParticles_nth(3) [OF len' i, of rnd] s' by auto
  note m = moveParticle_Fin [OF d att, of rnd k "velocities s ! i"]
  have dist: "length_vec (sub_vec vortexPos (positions s ! i)) = Fin d"
    by (simp add: p d)
  show ?thesis
  proof (cases "d < 3.5")
    case True
    have sp0: "positions (animate time perfNow rnd s) ! i = float32_vec (spawn rnd k)"
      and v0: "velocities (animate time perfNow rnd s) ! i = Vector3 (Fin 0) (Fin 0) (Fin 0)"
      using True k m by (simp_all add: p)
    have sp: "positions (animate time perfNow rnd s) ! i =
          float32_vec
            (Vector3 (Fin ((rnd k - 0.5) * 1500)) (Fin ((rnd (k + 1) - 0.5) * 1500 * 0.5))
              (Fin ((rnd (k + 2) - 0.5) * 1500 - 10)))"
      unfolding sp0 by (simp add: spawn_def RANGE_def)
    have box: "inRange (- 750) 750 (vx (positions (animate time perfNow rnd s) ! i)) \<and>
       inRange (- 375) 375 (vy (positions (animate time perfNow rnd s) ! i)) \<and>
       inRange (- 760) 740 (vz (positions (animate time perfNow rnd s) ! i))"
      unfolding sp0 using rnd by (rule stored_spawn_in_volume)
    show ?thesis
      using True l1 l2 dist v0 box sp by (simp only: if_True) blast
  next
    case False
    then have d0: "d \<noteq> 0"
      by auto
    have a: "attract (Fin d) = Fin att"
      unfolding att using d0 by (rule attract_Fin)
    have "0 < att"
      unfolding att by (rule attract_positive)
    then have pl: "length_vec (multiplyScalar (normalize_vec (sub_vec vortexPos (positions s ! i)))
         (attract (Fin d))) = Fin att"
      unfolding a p using d d0 by (intro pull_length)
    have "velocities (animate time perfNow rnd s) ! i =
         multiplyScalar
           (add_vec (velocities s ! i)
             (multiplyScalar (normalize_vec (sub_vec vortexPos (positions s ! i))) (attract (Fin d))))
           (Fin 0.97)"
      and "positions (animate time perfNow rnd s) ! i =
         float32_vec (add_vec (positions s ! i) (velocities (animate time perfNow rnd s) ! i))"
      using False k m by (simp_all add: p a)
    then show ?thesis
      using False l1 l2 dist a pl by (simp only: if_False)
  qed
qed

lemma Math_fround_small_int:
  assumes "\<bar>b\<bar> < 2 ^ 24"
  shows "Math_fround (Fin (of_int b)) = Fin (of_int b)"
proof -
  have "(of_int \<bar>b\<bar> :: real) < of_int (2 ^ 24)"
    using assms by (simp only: of_int_less_iff)
  then have "\<bar>of_int b :: real\<bar> < 2 ^ 24"
    by simp
  also have "(2::real) ^ 24 \<le> 2 ^ 128"
    by simp
  finally have "\<not> 2 ^ 128 \<le> \<bar>of_int b :: real\<bar>"
    by simp
  then show ?thesis
    by (simp add: fround_real_of_int [OF assms])
qed

theorem particle_update_witness:
  "length (positions (oneParticleAt (Vector3 (Fin 0) (Fin 0) (Fin (- 8))))) = PARTICLE_COUNT \<and>
   0 < PARTICLE_COUNT \<and>
   positions (oneParticleAt (Vector3 (Fin 0) (Fin 0) (Fin (- 8)))) ! 0 = Vector3 (Fin 0) (Fin 0) (Fin (- 8)) \<and>
   length_vec (sub_vec vortexPos (Vector3 (Fin 0) (Fin 0) (Fin (- 8)))) = Fin 10 \<and>
   attract (Fin 10) = Fin 0.024 \<and>
   velocities (animate 0 0 (\<lambda>k. 0) (oneParticleAt (Vector3 (Fin 0) (Fin 0) (Fin (- 8))))) ! 0 =
     Vector3 (Fin 0) (Fin 0) (Fin (- 0.02328)) \<and>
   positions (animate 0 0 (\<lambda>k. 0) (oneParticleAt (Vector3 (Fin 0) (Fin 0) (Fin (- 8))))) ! 0 =
     Vector3 (Fin 0) (Fin 0) (Fin (- (8413019 / 1048576))) \<and>
   length (positions (animate 0 0 (\<lambda>k. 0) (oneParticleAt (Vector3 (Fin 0) (Fin 0) (Fin (- 8)))))) =
     PARTICLE_COUNT \<and>
   length_vec (sub_vec vortexPos (Vector3 (Fin 0) (Fin 0) (Fin (- 18)))) = Fin 0 \<and>
   velocities (animate 0 0 (\<lambda>k. 0) (oneParticleAt (Vector3 (Fin 0) (Fin 0) (Fin (- 18))))) ! 0 =
     Vector3 (Fin 0) (Fin 0) (Fin 0) \<and>
   positions (animate 0 0 (\<lambda>k. 0) (oneParticleAt (Vector3 (Fin 0) (Fin 0) (Fin (- 18))))) ! 0 =
     Vector3 (Fin (- 750)) (Fin (- 375)) (Fin (- 760))"
proof -
  have n: "0 < PARTICLE_COUNT"
    by (simp add: PARTICLE_COUNT_def)
  have len: "length (positions (oneParticleAt p)) = PARTICLE_COUNT"
    "length (velocities (oneParticleAt p)) = PARTICLE_COUNT" for p
    by (simp_all add: oneParticleAt_def initialWorld_def)
  have p: "positions (oneParticleAt p) ! 0 = p" for p
    using n by (simp add: oneParticleAt_def initialWorld_def)
  have v: "velocities (oneParticleAt p) ! 0 = Vector3 (Fin 0) (Fin 0) (Fin 0)" for p
    using n by (simp add: oneParticleAt_def initialWorld_def)
  have rnd: "\<forall>n. 0 \<le> (\<lambda>k. 0::real) n \<and> (\<lambda>k. 0::real) n < 1"
    by simp
  have s: "sqrt 100 = 10"
    using real_sqrt_abs2 [of 10] by simp
  have d1: "(10::real) = sqrt (0 * 0 + 0 * 0 + (- 18 - (- 8)) * (- 18 - (- 8)))"
    by (simp add: s)
  have a1: "(0.024::real) = (if (10::real) < 23 then 1.6 else 1) * max 0.015 (min 0.07 (0.011 + 0.18 / (10 * 10)))"
    by simp
  have d2: "(0::real) = sqrt (0 * 0 + 0 * 0 + (- 18 - (- 18)) * (- 18 - (- 18)))"
    by simp
  have a2: "(0.024::real) = (if (0::real) < 23 then 1.6 else 1) * max 0.015 (min 0.07 (0.011 + 0.18 / (0 * 0)))"
    by simp
  have f0: "fround_real 0 = 0"
    by (simp add: fround_real_def)
  have f1: "Math_fround (Fin (- 8.02328)) = Fin (- (8413019 / 1048576))"
    using fround_example by simp
  have f2: "Math_fround (Fin (- 750)) = Fin (- 750)" "Math_fround (Fin (- 375)) = Fin (- 375)"
    "Math_fround (Fin (- 760)) = Fin (- 760)"
    using Math_fround_small_int [of "- 750"] Math_fround_small_int [of "- 375"]
      Math_fround_small_int [of "- 760"] by simp_all
  note w1 = particle_update [OF len n p d1 a1 rnd, of 0 0]
  note w2 = particle_update [OF len n p d2 a2 rnd, of 0 0]
  let ?s1 = "oneParticleAt (Vector3 (Fin 0) (Fin 0) (Fin (- 8)))"
  let ?s2 = "oneParticleAt (Vector3 (Fin 0) (Fin 0) (Fin (- 18)))"
  have dir: "normalize_vec (Vector3 (Fin 0) (Fin 0) (Fin (- 10))) =
      Vector3 (Fin 0) (Fin 0) (Fin (- 1))"
    by (simp add: normalize_vec_finite s)
  have l1: "length (positions (animate 0 0 (\<lambda>k. 0) ?s1)) = PARTICLE_COUNT"
    using w1 by simp
  have a: "attract (Fin 10) = Fin 0.024"
    using w1 by simp
  have "velocities (animate 0 0 (\<lambda>k. 0) ?s1) ! 0 =
      multiplyScalar
        (add_vec (velocities ?s1 ! 0)
          (multiplyScalar (normalize_vec (sub_vec vortexPos (positions ?s1 ! 0))) (attract (Fin 10))))
        (Fin 0.97)"
    using w1 by simp
  then have v1: "velocities (animate 0 0 (\<lambda>k. 0) ?s1) ! 0 = Vector3 (Fin 0) (Fin 0) (Fin (- 0.02328))"
    by (simp add: p v dir a)
  have "positions (animate 0 0 (\<lambda>k. 0) ?s1) ! 0 =
      float32_vec (add_vec (positions ?s1 ! 0) (velocities (animate 0 0 (\<lambda>k. 0) ?s1) ! 0))"
    using w1 by simp
  then have p1: "positions (animate 0 0 (\<lambda>k. 0) ?s1) ! 0 =
      Vector3 (Fin 0) (Fin 0) (Fin (- (8413019 / 1048576)))"
    using f1 by (simp add: p v1 float32_vec_def f0)
  have v2: "velocities (animate 0 0 (\<lambda>k. 0) ?s2) ! 0 = Vector3 (Fin 0) (Fin 0) (Fin 0)"
    using w2 by simp
  have "\<exists>k. positions (animate 0 0 (\<lambda>k. 0) ?s2) ! 0 =
      float32_vec (Vector3 (Fin ((0 - 0.5) * 1500)) (Fin ((0 - 0.5) * 1500 * 0.5))
        (Fin ((0 - 0.5) * 1500 - 10)))"
    using w2 by simp
  then have p2: "positions (animate 0 0 (\<lambda>k. 0) ?s2) ! 0 =
      Vector3 (Fin (- 750)) (Fin (- 375)) (Fin (- 760))"
    using f2 by (simp add: float32_vec_def)
  show ?thesis
    using n len(1) [of "Vector3 (Fin 0) (Fin 0) (Fin (- 8))"] l1 a v1 p1 v2 p2
    by (simp add: p s)
qed

section \<open>The collision\<close>

lemma step_fields [simp]:
  "hasCollided (step f now s) = hasCollided s"
  "console (step f now s) = console s"
  "sphere_position (step f now s) = sphere_position s"
  "targetGain (step f now s) = targetGain s"
  by (simp_all add: step_def Let_def)

lemma runCallbacks_fields [simp]:
  "hasCollided (runCallbacks now fs s) = hasCollided s"
  "console (runCallbacks now fs s) = console s"
  "sphere_position (runCallbacks now fs s) = sphere_position s"
  "targetGain (runCallbacks now fs s) = targetGain s"
  by (induction fs arbitrary: s) simp_all



lemma key_fields [simp]:
  "hasCollided (keydown code s) = hasCollided s"
  "console (keydown code s) = console s"
  "hasCollided (keyup code s) = hasCollided s"
  "console (keyup code s) = console s"
  by (simp_all add: keydown_def keyup_def startAudio_def Let_def)



lemma animate_trigger:
  assumes "\<not> hasCollided s" and "near s" and "audioStarted s" and "\<not> fading s"
  shows "fading (animate time perfNow rnd s)"
    and "stepCallbacks (animate time perfNow rnd s) =
      stepCallbacks s @
        [\<lparr>start = currentGain (animate time perfNow rnd s), startTime = perfNow, duration = 1900\<rparr>]"
  using assms
  by (simp_all add: animate_def Let_def engulf_def fadeOutAudio_def moveSphere_def
      smoothGain_def setAudioIntensity_def near_def)


lemma frame_no_callbacks:
  assumes "stepCallbacks s = []"
  shows "frame time perfNow rnd s = animate time perfNow rnd s"
proof -
  have e: "s\<lparr>stepCallbacks := []\<rparr> = s"
    using assms by (cases s) simp
  show ?thesis
    unfolding frame_def assms runCallbacks.simps e ..
qed





lemma key_fade [simp]:
  "fading (keydown code s) = fading s"
  "stepCallbacks (keydown code s) = stepCallbacks s"
  "fading (keyup code s) = fading s"
  "stepCallbacks (keyup code s) = stepCallbacks s"
  by (simp_all add: keydown_def keyup_def startAudio_def Let_def)








section \<open>The fade\<close>

lemma step_one_fade:
  assumes "fading s"
  shows "length (stepCallbacks (step f now (s\<lparr>stepCallbacks := []\<rparr>))) =
    (if fading (step f now (s\<lparr>stepCallbacks := []\<rparr>)) then 1 else 0)"
  using assms by (simp add: step_def Let_def)

lemma animate_one_fade:
  assumes "length (stepCallbacks s) = (if fading s then 1 else 0)"
  shows "length (stepCallbacks (animate time perfNow rnd s)) =
    (if fading (animate time perfNow rnd s) then 1 else 0)"
  using assms
  by (auto simp add: animate_def Let_def engulf_def fadeOutAudio_def moveSphere_def
      smoothGain_def setAudioIntensity_def split: if_splits)

lemma frame_one_fade:
  assumes "length (stepCallbacks s) = (if fading s then 1 else 0)"
  shows "length (stepCallbacks (frame time perfNow rnd s)) =
    (if fading (frame time perfNow rnd s) then 1 else 0)"
proof (cases "fading s")
  case True
  then obtain f where f: "stepCallbacks s = [f]"
    using assms by (cases "stepCallbacks s") simp_all
  show ?thesis
    unfolding frame_def f runCallbacks.simps
    by (rule animate_one_fade) (rule step_one_fade [OF True])
next
  case False
  then have e: "stepCallbacks s = []"
    using assms by simp
  show ?thesis
    unfolding frame_no_callbacks [OF e] using assms by (rule animate_one_fade)
qed

lemma handle_one_fade:
  assumes "length (stepCallbacks s) = (if fading s then 1 else 0)"
  shows "length (stepCallbacks (handle e s)) = (if fading (handle e s) then 1 else 0)"
proof (cases e)
  case (KeyDown code)
  then show ?thesis
    using assms by (auto simp add: keydown_def startAudio_def Let_def split: if_splits)
next
  case (KeyUp code)
  then show ?thesis
    using assms by (auto simp add: keyup_def Let_def split: if_splits)
next
  case (AnimationFrame time perfNow rnd)
  then show ?thesis
    using frame_one_fade [OF assms] by simp
qed

lemma run_one_fade:
  assumes "length (stepCallbacks s) = (if fading s then 1 else 0)"
  shows "length (stepCallbacks (run es s)) = (if fading (run es s) then 1 else 0)"
  using assms
proof (induction es arbitrary: s)
  case Nil
  then show ?case
    by simp
next
  case (Cons e es)
  show ?case
    using Cons.IH [OF handle_one_fade [OF Cons.prems]] by simp
qed

lemma step_currentGain:
  assumes "start f = Fin a" and "0 < duration f"
  shows "currentGain (step f now s) = Fin (a * (1 - min 1 ((now - startTime f) / duration f)))"
  using assms by (simp add: step_def fadeT_def Let_def min_def)

text \<open>
  C6. A call of \<open>fadeOutAudio\<close> while a fade is in progress returns the state unchanged,
  so every later run goes on as without the call. In every state reached from the
  initial one at most one \<open>step\<close> is pending. A call with the audio started and no
  fade in progress hands over one \<open>step\<close>, which holds the gain at that moment; a run
  of that \<open>step\<close> at the timestamp \<open>now\<close> sets the gain to
  \<open>start * (1 - min(1, (now - startTime) / duration))\<close>.
\<close>

theorem fadeOutAudio_one_shot:
  assumes "fading s"
  shows "fadeOutAudio dur perfNow s = s \<and>
    run es' (fadeOutAudio dur perfNow s) = run es' s \<and>
    length (stepCallbacks (run es (initialWorld rnd))) \<le> 1 \<and>
    (audioStarted s' \<and> \<not> fading s' \<longrightarrow>
      fading (fadeOutAudio dur perfNow s') \<and>
      stepCallbacks (fadeOutAudio dur perfNow s') =
        stepCallbacks s' @ [\<lparr>start = currentGain s', startTime = perfNow, duration = dur\<rparr>]) \<and>
    (start f = Fin a \<and> 0 < duration f \<longrightarrow>
      currentGain (step f now s) = Fin (a * (1 - min 1 ((now - startTime f) / duration f))))"
proof -
  have "length (stepCallbacks (initialWorld rnd)) = (if fading (initialWorld rnd) then 1 else 0)"
    by (simp add: initialWorld_def)
  then have "length (stepCallbacks (run es (initialWorld rnd))) \<le> 1"
    using run_one_fade [of "initialWorld rnd" es] by simp
  then show ?thesis
    using assms by (simp add: fadeOutAudio_def step_currentGain)
qed

theorem fadeOutAudio_one_shot_witness:
  "fading (fadeOutAudio 1900 0 (startAudio (initialWorld (\<lambda>k. 0)))) \<and>
   stepCallbacks (fadeOutAudio 1900 0 (startAudio (initialWorld (\<lambda>k. 0)))) =
     [\<lparr>start = Fin 0.7, startTime = 0, duration = 1900\<rparr>] \<and>
   fadeOutAudio 1900 500 (fadeOutAudio 1900 0 (startAudio (initialWorld (\<lambda>k. 0)))) =
     fadeOutAudio 1900 0 (startAudio (initialWorld (\<lambda>k. 0))) \<and>
   currentGain (step \<lparr>start = Fin 0.7, startTime = 0, duration = 1900\<rparr> 950
     (fadeOutAudio 1900 0 (startAudio (initialWorld (\<lambda>k. 0))))) = Fin 0.35"
proof -
  let ?w = "fadeOutAudio 1900 0 (startAudio (initialWorld (\<lambda>k. 0)))"
  have f: "fading ?w"
    by (simp add: fadeOutAudio_def startAudio_def initialWorld_def)
  have c: "stepCallbacks ?w = [\<lparr>start = Fin 0.7, startTime = 0, duration = 1900\<rparr>]"
    by (simp add: fadeOutAudio_def startAudio_def initialWorld_def)
  show ?thesis
    using f c
      fadeOutAudio_one_shot [OF f, of 1900 500 "[]" "[]" "\<lambda>k. 0" "startAudio (initialWorld (\<lambda>k. 0))"
        "\<lparr>start = Fin 0.7, startTime = 0, duration = 1900\<rparr>" "0.7" 950]
    by simp
qed

section \<open>The bounds on the gain\<close>

lemma inRange_iff: "inRange lo hi a \<longleftrightarrow> (\<exists>x. a = Fin x \<and> lo \<le> x \<and> x \<le> hi)"
  by (cases a) simp_all

lemma fade_ok_mono: "t \<le> t' \<Longrightarrow> fade_ok t f \<Longrightarrow> fade_ok t' f"
  by (simp add: fade_ok_def)

lemma fades_ok_mono: "t \<le> t' \<Longrightarrow> list_all (fade_ok t) fs \<Longrightarrow> list_all (fade_ok t') fs"
  by (induction fs) (auto intro: fade_ok_mono)

lemma audio_inv_mono: "t \<le> t' \<Longrightarrow> audio_inv t s \<Longrightarrow> audio_inv t' s"
  by (auto simp: audio_inv_def intro: fades_ok_mono)

lemma fade_gain_range:
  fixes a :: real
  assumes "0 \<le> a" and "a \<le> 1.27" and "st \<le> now" and "0 < dur"
  shows "0 \<le> a * (1 - min 1 ((now - st) / dur))" and "a * (1 - min 1 ((now - st) / dur)) \<le> 1.27"
proof -
  have "0 \<le> (now - st) / dur"
    using assms by simp
  then have m: "0 \<le> min 1 ((now - st) / dur)" "min 1 ((now - st) / dur) \<le> 1"
    by simp_all
  then show "0 \<le> a * (1 - min 1 ((now - st) / dur))"
    using assms(1) by simp
  have "a * (1 - min 1 ((now - st) / dur)) \<le> a * 1"
    using m assms(1) by (intro mult_left_mono) simp_all
  then show "a * (1 - min 1 ((now - st) / dur)) \<le> 1.27"
    using assms(2) by simp
qed

lemma fadeT_Fin:
  "0 < duration f \<Longrightarrow> fadeT f now = Fin (min 1 ((now - startTime f) / duration f))"
  by (simp add: fadeT_def)

lemma step_audio_inv:
  assumes "audio_inv now s" and "fade_ok now f"
  shows "audio_inv now (step f now s)"
proof -
  obtain a where a: "start f = Fin a" "0 \<le> a" "a \<le> 1.27"
    using assms(2) by (auto simp: fade_ok_def inRange_iff)
  have t: "startTime f \<le> now" "0 < duration f"
    using assms(2) by (simp_all add: fade_ok_def)
  note r = fade_gain_range [OF a(2,3) t]
  have g: "start f * (Fin 1 - fadeT f now) =
      Fin (a * (1 - min 1 ((now - startTime f) / duration f)))"
    by (simp add: fadeT_Fin [OF t(2)] a)
  have i: "inRange 0 1.27 (start f * (Fin 1 - fadeT f now))"
    unfolding g using r by simp
  show ?thesis
  proof (cases "fadeT f now < Fin 1")
    case True
    then show ?thesis
      using assms i by (simp add: audio_inv_def step_def Let_def)
  next
    case False
    then show ?thesis
      using assms by (simp add: audio_inv_def step_def Let_def)
  qed
qed

lemma runCallbacks_audio_inv:
  assumes "audio_inv now s" and "list_all (fade_ok now) fs"
  shows "audio_inv now (runCallbacks now fs s)"
  using assms
proof (induction fs arbitrary: s)
  case Nil
  then show ?case
    by simp
next
  case (Cons f fs)
  then show ?case
    by (simp add: step_audio_inv)
qed

lemma smooth_range:
  fixes c g :: real
  assumes "0 \<le> c" "c \<le> 1.27" "0.13 \<le> g" "g \<le> 1.27"
  shows "0 \<le> c + (g - c) * 0.04" and "c + (g - c) * 0.04 \<le> 1.27"
proof -
  have e: "c + (g - c) * 0.04 = (24 * c + g) / 25"
    by (simp add: field_simps)
  have b: "0 \<le> g" "c * 100 \<le> 127" "g * 100 \<le> 127"
    using assms by simp_all
  show "0 \<le> c + (g - c) * 0.04"
    unfolding e using assms(1) b(1) by simp
  have "(24 * c + g) * 100 \<le> 25 * 127"
    using b by simp
  then show "c + (g - c) * 0.04 \<le> 1.27"
    unfolding e by simp
qed

lemma setAudioIntensity_audio_inv:
  assumes "audio_inv t s"
  shows "audio_inv t (setAudioIntensity (Fin x) s)"
proof -
  have "0.13 \<le> 0.13 + 0.95 * max 0 (min 1.2 x)" "0.13 + 0.95 * max 0 (min 1.2 x) \<le> (1.27::real)"
    by simp_all
  then show ?thesis
    using assms by (simp add: audio_inv_def setAudioIntensity_def Let_def)
qed

lemma smoothGain_audio_inv:
  assumes "audio_inv t s"
  shows "audio_inv t (smoothGain s)"
proof -
  obtain c g where c: "currentGain s = Fin c" "0 \<le> c" "c \<le> 1.27"
    and g: "targetGain s = Fin g" "0.13 \<le> g" "g \<le> 1.27"
    using assms by (auto simp: audio_inv_def inRange_iff)
  show ?thesis
    using assms smooth_range [OF c(2,3) g(2,3)]
    by (simp add: audio_inv_def smoothGain_def Let_def c g)
qed

lemma fadeOutAudio_audio_inv:
  assumes "audio_inv t s" and "t \<le> perfNow"
  shows "audio_inv perfNow (fadeOutAudio 1900 perfNow s)"
proof -
  have "audio_inv perfNow s"
    using assms by (auto intro: audio_inv_mono)
  then show ?thesis
    by (simp add: audio_inv_def fadeOutAudio_def fade_ok_def)
qed

lemma animate_audio_inv:
  assumes "audio_inv time s" and "time \<le> perfNow" and "finite_vec (sphere_position s)"
  shows "audio_inv perfNow (animate time perfNow rnd s)"
proof -
  obtain a b c where p: "sphere_position s = Vector3 (Fin a) (Fin b) (Fin c)"
    using assms(3) by (auto simp: finite_vec_iff)
  define d where "d = sqrt (- a * - a + - b * - b + (- 18 - c) * (- 18 - c))"
  have dst: "length_vec (sub_vec vortexPos (sphere_position s)) = Fin d"
    by (simp add: p d_def)
  define s2 where "s2 = smoothGain (setAudioIntensity (Fin (2 - min 1 (d / 160))) s)"
  have s2: "audio_inv time s2"
    unfolding s2_def by (intro smoothGain_audio_inv setAudioIntensity_audio_inv assms(1))
  define s3 where "s3 = moveSphere (Fin time) (Fin d) (normalize_vec (sub_vec vortexPos (sphere_position s))) s2"
  have s3: "audio_inv time s3"
    using s2 by (simp add: s3_def moveSphere_def Let_def audio_inv_def)
  define s4 where "s4 = engulf perfNow (Fin d) s3"
  have "audio_inv perfNow (fadeOutAudio 1900 perfNow (s3\<lparr>hasCollided := True\<rparr>))"
    using s3 by (intro fadeOutAudio_audio_inv [OF _ assms(2)]) (simp add: audio_inv_def)
  moreover have "audio_inv perfNow s3"
    using s3 assms(2) by (rule audio_inv_mono [rotated])
  ultimately have s4: "audio_inv perfNow s4"
    by (simp add: s4_def engulf_def Let_def audio_inv_def)
  have "animate time perfNow rnd s = (updateParticles rnd s4)\<lparr>vignette_opacity := vignetteOpacity (Fin d)\<rparr>"
    by (simp add: animate_def Let_def dst intensityAt_Fin s4_def s3_def s2_def)
  then show ?thesis
    using s4 by (simp add: audio_inv_def)
qed

lemma frame_audio_inv:
  assumes "audio_inv t s" and "t \<le> time" and "time \<le> perfNow"
    and "finite_vec (sphere_position s)"
  shows "audio_inv perfNow (frame time perfNow rnd s)"
proof -
  have i: "audio_inv time s"
    using assms(2,1) by (rule audio_inv_mono)
  then have "audio_inv time (s\<lparr>stepCallbacks := []\<rparr>)"
    and "list_all (fade_ok time) (stepCallbacks s)"
    by (simp_all add: audio_inv_def)
  then have "audio_inv time (runCallbacks time (stepCallbacks s) (s\<lparr>stepCallbacks := []\<rparr>))"
    by (rule runCallbacks_audio_inv)
  then show ?thesis
    unfolding frame_def using assms(3) by (rule animate_audio_inv) (simp add: assms(4))
qed

lemma keydown_audio_inv: "audio_inv t s \<Longrightarrow> audio_inv t (keydown code s)"
  by (simp add: audio_inv_def keydown_def startAudio_def Let_def)

lemma keyup_audio_inv: "audio_inv t s \<Longrightarrow> audio_inv t (keyup code s)"
  by (simp add: audio_inv_def keyup_def Let_def)

lemma run_audio_inv:
  assumes "wellTimed t es s" and "audio_inv t s"
  shows "audio_inv (clockAfter t es) (run es s)"
  using assms
proof (induction es arbitrary: t s)
  case Nil
  then show ?case
    by simp
next
  case (Cons e es)
  show ?case
  proof (cases e)
    case (KeyDown code)
    then show ?thesis
      using Cons.prems Cons.IH [of t "keydown code s"] by (simp add: keydown_audio_inv)
  next
    case (KeyUp code)
    then show ?thesis
      using Cons.prems Cons.IH [of t "keyup code s"] by (simp add: keyup_audio_inv)
  next
    case (AnimationFrame time perfNow rnd)
    then have w: "t \<le> time" "time \<le> perfNow" "finite_vec (sphere_position s)"
      "wellTimed perfNow es (frame time perfNow rnd s)"
      using Cons.prems(1) by simp_all
    have "audio_inv perfNow (frame time perfNow rnd s)"
      using Cons.prems(2) w(1,2,3) by (rule frame_audio_inv)
    then show ?thesis
      using Cons.IH [OF w(4)] AnimationFrame by simp
  qed
qed

lemma initial_audio_inv: "audio_inv t (initialWorld rnd)"
  by (simp add: audio_inv_def initialWorld_def)

lemma fade_monotone:
  fixes a :: real
  assumes "0 \<le> a" and "0 < dur" and "now \<le> now'"
  shows "a * (1 - min 1 ((now' - st) / dur)) \<le> a * (1 - min 1 ((now - st) / dur))"
proof -
  have "(now - st) / dur \<le> (now' - st) / dur"
    using assms(2,3) by (simp add: divide_right_mono)
  then have "min 1 ((now - st) / dur) \<le> min 1 ((now' - st) / dur)"
    by (simp add: min_le_iff_disj)
  then show ?thesis
    using assms(1) by (intro mult_left_mono) simp_all
qed

text \<open>
  C5. After every well-timed run from the initial state \<open>currentGain\<close> lies in
  \<open>[0, 0.13 + 0.95 * 1.2]\<close>, \<open>targetGain\<close> in \<open>[0.13, 0.13 + 0.95 * 1.2]\<close>, and so does the
  gain of the gain node once it exists. A fade that started from the gain \<open>a \<ge> 0\<close> sets
  the gain at a timestamp \<open>now\<close> not before its start to \<open>a * (1 - t)\<close> with
  \<open>t = min(1, (now - startTime) / duration)\<close>: that is \<open>a\<close> at the start, never negative,
  not larger at a later timestamp, and \<open>0\<close> once the duration has elapsed.
\<close>

theorem currentGain_in_range:
  assumes "wellTimed t es (initialWorld rnd)"
  shows "inRange 0 (0.13 + 0.95 * 1.2) (currentGain (run es (initialWorld rnd))) \<and>
    inRange 0.13 (0.13 + 0.95 * 1.2) (targetGain (run es (initialWorld rnd))) \<and>
    (case gainNode_gain (run es (initialWorld rnd)) of
       None \<Rightarrow> True | Some g \<Rightarrow> inRange 0 (0.13 + 0.95 * 1.2) g) \<and>
    (start f = Fin a \<and> 0 \<le> a \<and> 0 < duration f \<and> startTime f \<le> now \<and> now \<le> now' \<longrightarrow>
      currentGain (step f now s) = Fin (a * (1 - min 1 ((now - startTime f) / duration f))) \<and>
      currentGain (step f now' s') = Fin (a * (1 - min 1 ((now' - startTime f) / duration f))) \<and>
      0 \<le> a * (1 - min 1 ((now' - startTime f) / duration f)) \<and>
      a * (1 - min 1 ((now' - startTime f) / duration f)) \<le>
        a * (1 - min 1 ((now - startTime f) / duration f)) \<and>
      a * (1 - min 1 ((now - startTime f) / duration f)) \<le> a \<and>
      currentGain (step f (startTime f) s) = Fin a \<and>
      (startTime f + duration f \<le> now \<longrightarrow> currentGain (step f now s) = Fin 0))"
proof -
  have "audio_inv (clockAfter t es) (run es (initialWorld rnd))"
    using assms initial_audio_inv by (rule run_audio_inv)
  then have r: "inRange 0 (0.13 + 0.95 * 1.2) (currentGain (run es (initialWorld rnd)))"
    "inRange 0.13 (0.13 + 0.95 * 1.2) (targetGain (run es (initialWorld rnd)))"
    "case gainNode_gain (run es (initialWorld rnd)) of
       None \<Rightarrow> True | Some g \<Rightarrow> inRange 0 (0.13 + 0.95 * 1.2) g"
    by (auto simp add: audio_inv_def split: option.splits)
  have fade: "currentGain (step f now s) = Fin (a * (1 - min 1 ((now - startTime f) / duration f))) \<and>
      currentGain (step f now' s') = Fin (a * (1 - min 1 ((now' - startTime f) / duration f))) \<and>
      0 \<le> a * (1 - min 1 ((now' - startTime f) / duration f)) \<and>
      a * (1 - min 1 ((now' - startTime f) / duration f)) \<le>
        a * (1 - min 1 ((now - startTime f) / duration f)) \<and>
      a * (1 - min 1 ((now - startTime f) / duration f)) \<le> a \<and>
      currentGain (step f (startTime f) s) = Fin a \<and>
      (startTime f + duration f \<le> now \<longrightarrow> currentGain (step f now s) = Fin 0)"
    if h: "start f = Fin a" "0 \<le> a" "0 < duration f" "startTime f \<le> now" "now \<le> now'"
  proof -
    have g: "currentGain (step f n z) = Fin (a * (1 - min 1 ((n - startTime f) / duration f)))" for n z
      using h(1,3) by (rule step_currentGain)
    have m: "a * (1 - min 1 ((now' - startTime f) / duration f)) \<le>
        a * (1 - min 1 ((now - startTime f) / duration f))"
      using h(2,3,5) by (rule fade_monotone)
    have "0 \<le> (now' - startTime f) / duration f"
      using h(3,4,5) by simp
    then have "0 \<le> 1 - min 1 ((now' - startTime f) / duration f)"
      by simp
    then have p: "0 \<le> a * (1 - min 1 ((now' - startTime f) / duration f))"
      using h(2) by simp
    have "0 \<le> (now - startTime f) / duration f"
      using h(3,4) by simp
    then have "0 \<le> min 1 ((now - startTime f) / duration f)"
      by simp
    then have "a * (1 - min 1 ((now - startTime f) / duration f)) \<le> a * 1"
      using h(2) by (intro mult_left_mono) simp_all
    then have u: "a * (1 - min 1 ((now - startTime f) / duration f)) \<le> a"
      by simp
    have e: "min 1 ((now - startTime f) / duration f) = 1" if "startTime f + duration f \<le> now"
    proof -
      have "duration f \<le> now - startTime f"
        using that by simp
      then have "1 \<le> (now - startTime f) / duration f"
        using h(3) by (simp add: le_divide_eq)
      then show ?thesis
        by simp
    qed
    show ?thesis
      using g m p u e by simp
  qed
  show ?thesis
    using r fade by blast
qed

theorem currentGain_in_range_witness:
  "wellTimed 0 [KeyDown ''Space'', AnimationFrame 0 1 (\<lambda>k. 0)] (initialWorld (\<lambda>k. 0)) \<and>
   inRange 0 (0.13 + 0.95 * 1.2)
     (currentGain (run [KeyDown ''Space'', AnimationFrame 0 1 (\<lambda>k. 0)] (initialWorld (\<lambda>k. 0)))) \<and>
   currentGain (step \<lparr>start = Fin 0.7, startTime = 0, duration = 1900\<rparr> 0 (initialWorld (\<lambda>k. 0))) =
     Fin 0.7 \<and>
   currentGain (step \<lparr>start = Fin 0.7, startTime = 0, duration = 1900\<rparr> 950 (initialWorld (\<lambda>k. 0))) =
     Fin 0.35 \<and>
   currentGain (step \<lparr>start = Fin 0.7, startTime = 0, duration = 1900\<rparr> 1900 (initialWorld (\<lambda>k. 0))) =
     Fin 0"
proof -
  have w: "wellTimed 0 [KeyDown ''Space'', AnimationFrame 0 1 (\<lambda>k. 0)] (initialWorld (\<lambda>k. 0))"
    by (simp add: keydown_def startAudio_def initialWorld_def Let_def)
  note c = currentGain_in_range [OF w, of "\<lparr>start = Fin 0.7, startTime = 0, duration = 1900\<rparr>" "0.7"]
  show ?thesis
    using w c [of 950 950 "initialWorld (\<lambda>k. 0)" "initialWorld (\<lambda>k. 0)"]
      c [of 1900 1900 "initialWorld (\<lambda>k. 0)" "initialWorld (\<lambda>k. 0)"]
    by simp
qed

section \<open>The repulsion near the vortex\<close>

lemma runCallbacks_sphere [simp]:
  "sphereVelocity (runCallbacks now fs s) = sphereVelocity s"
  "moveTarget (runCallbacks now fs s) = moveTarget s"
  by (induction fs arbitrary: s) (simp_all add: step_def Let_def)

lemma frame_sphere:
  "sphereVelocity (frame time perfNow rnd s) =
     nextVelocity (Fin time) (moveTarget s) (length_vec (sub_vec vortexPos (sphere_position s)))
       (normalize_vec (sub_vec vortexPos (sphere_position s))) (sphereVelocity s)"
  by (simp add: frame_def animate_sphere(1))

text \<open>
  C9. With the sphere at a finite position at distance \<open>dist < 80 / 9\<close> from the vortex,
  the coefficient \<open>K\<close> of the frame is \<open>4.5 * dist - 40\<close>, strictly negative. At a distance
  other than zero the term that the frame adds to the velocity of the sphere is the
  vector to the vortex scaled by the negative factor \<open>K / dist\<^sup>3\<close>, so it points away
  from the vortex; the velocity before the clamp is the old velocity plus that term,
  the noise and the input, and the velocity after the frame is its clamped value times
  the friction. At distance zero the strength is \<open>-Infinity\<close>.
\<close>

theorem gravK_negative_near_vortex:
  assumes pos: "sphere_position s = Vector3 (Fin a) (Fin b) (Fin c)"
    and len: "length_vec (sub_vec vortexPos (sphere_position s)) = Fin d"
    and near: "d < 80 / 9"
  shows "gravK (Fin d) = Fin (4.5 * d - 40) \<and> 4.5 * d - 40 < 0 \<and>
    (if d = 0 then gravStrength (Fin d) = NegInf
     else (4.5 * d - 40) / (d * d * d) < 0 \<and>
       addScaledVector (sphereVelocity s)
           (normalize_vec (sub_vec vortexPos (sphere_position s))) (gravStrength (Fin d)) =
         add_vec (sphereVelocity s)
           (multiplyScalar (sub_vec vortexPos (sphere_position s))
             (Fin ((4.5 * d - 40) / (d * d * d)))) \<and>
       acceleratedVelocity (Fin time) (moveTarget s)
           (length_vec (sub_vec vortexPos (sphere_position s)))
           (normalize_vec (sub_vec vortexPos (sphere_position s))) (sphereVelocity s) =
         addPlayerInput (moveTarget s)
           (add_vec
             (add_vec (sphereVelocity s)
               (multiplyScalar (sub_vec vortexPos (sphere_position s))
                 (Fin ((4.5 * d - 40) / (d * d * d)))))
             (noise (Fin time) (Fin d))) \<and>
       sphereVelocity (animate time perfNow rnd s) =
         multiplyScalar
           (clampSpeed
             (addPlayerInput (moveTarget s)
               (add_vec
                 (add_vec (sphereVelocity s)
                   (multiplyScalar (sub_vec vortexPos (sphere_position s))
                     (Fin ((4.5 * d - 40) / (d * d * d)))))
                 (noise (Fin time) (Fin d)))))
           friction \<and>
       sphereVelocity (frame time perfNow rnd s) = sphereVelocity (animate time perfNow rnd s))"
proof -
  have d0: "0 \<le> d"
    using len unfolding pos toVortex_Fin by (rule length_vec_nonneg)
  have m: "min 1 ((d - 10) / 400) = (d - 10) / 400"
    using near by (simp add: min_def)
  have "5 + 1800 * ((d - 10) / 400) = 4.5 * d - 40"
    by (simp add: diff_divide_distrib)
  then have k: "gravK (Fin d) = Fin (4.5 * d - 40)"
    by (simp only: gravK_Fin m)
  have kneg: "4.5 * d - 40 < 0"
    using near by simp
  have zero: "gravStrength (Fin d) = NegInf" if "d = 0"
    using that k by (simp add: gravStrength_def)
  have fr: "sphereVelocity (frame time perfNow rnd s) = sphereVelocity (animate time perfNow rnd s)"
    by (simp add: frame_sphere animate_sphere(1))
  have rest: "(4.5 * d - 40) / (d * d * d) < 0 \<and>
       addScaledVector (sphereVelocity s)
           (normalize_vec (sub_vec vortexPos (sphere_position s))) (gravStrength (Fin d)) =
         add_vec (sphereVelocity s)
           (multiplyScalar (sub_vec vortexPos (sphere_position s))
             (Fin ((4.5 * d - 40) / (d * d * d)))) \<and>
       acceleratedVelocity (Fin time) (moveTarget s)
           (length_vec (sub_vec vortexPos (sphere_position s)))
           (normalize_vec (sub_vec vortexPos (sphere_position s))) (sphereVelocity s) =
         addPlayerInput (moveTarget s)
           (add_vec
             (add_vec (sphereVelocity s)
               (multiplyScalar (sub_vec vortexPos (sphere_position s))
                 (Fin ((4.5 * d - 40) / (d * d * d)))))
             (noise (Fin time) (Fin d))) \<and>
       sphereVelocity (animate time perfNow rnd s) =
         multiplyScalar
           (clampSpeed
             (addPlayerInput (moveTarget s)
               (add_vec
                 (add_vec (sphereVelocity s)
                   (multiplyScalar (sub_vec vortexPos (sphere_position s))
                     (Fin ((4.5 * d - 40) / (d * d * d)))))
                 (noise (Fin time) (Fin d)))))
           friction" if nz: "d \<noteq> 0"
  proof -
    have g: "gravStrength (Fin d) = Fin ((4.5 * d - 40) / (d * d))"
      using nz k by (simp add: gravStrength_def)
    have n: "normalize_vec (Vector3 (Fin (- a)) (Fin (- b)) (Fin (- 18 - c))) =
      Vector3 (Fin (- a * (1 / d))) (Fin (- b * (1 / d))) (Fin ((- 18 - c) * (1 / d)))"
      using len nz unfolding pos toVortex_Fin by (intro normalize_vec_Fin) simp_all
    have away: "addScaledVector (sphereVelocity s)
           (normalize_vec (sub_vec vortexPos (sphere_position s))) (gravStrength (Fin d)) =
         add_vec (sphereVelocity s)
           (multiplyScalar (sub_vec vortexPos (sphere_position s))
             (Fin ((4.5 * d - 40) / (d * d * d))))"
      unfolding pos toVortex_Fin n g using nz
      by (simp add: addScaledVector_def add_vec_def multiplyScalar_def mult.assoc)
    have "0 < d * d * d"
      using d0 nz by simp
    then have sign: "(4.5 * d - 40) / (d * d * d) < 0"
      using kneg by (simp add: divide_neg_pos)
    have acc: "acceleratedVelocity (Fin time) (moveTarget s)
           (length_vec (sub_vec vortexPos (sphere_position s)))
           (normalize_vec (sub_vec vortexPos (sphere_position s))) (sphereVelocity s) =
         addPlayerInput (moveTarget s)
           (add_vec
             (add_vec (sphereVelocity s)
               (multiplyScalar (sub_vec vortexPos (sphere_position s))
                 (Fin ((4.5 * d - 40) / (d * d * d)))))
             (noise (Fin time) (Fin d)))"
      unfolding len acceleratedVelocity_def Let_def away ..
    have "sphereVelocity (animate time perfNow rnd s) =
         multiplyScalar
           (clampSpeed
             (acceleratedVelocity (Fin time) (moveTarget s)
               (length_vec (sub_vec vortexPos (sphere_position s)))
               (normalize_vec (sub_vec vortexPos (sphere_position s))) (sphereVelocity s)))
           friction"
      by (simp add: animate_sphere(1) nextVelocity_def)
    then show ?thesis
      using sign away acc by simp
  qed
  show ?thesis
    using k kneg zero rest fr by simp
qed

theorem gravK_negative_near_vortex_witness:
  "sphere_position (sphereAt (Vector3 (Fin 0) (Fin 0) (Fin (- 10)))) =
     Vector3 (Fin 0) (Fin 0) (Fin (- 10)) \<and>
   length_vec (sub_vec vortexPos (sphere_position (sphereAt (Vector3 (Fin 0) (Fin 0) (Fin (- 10))))))
     = Fin 8 \<and>
   (8::real) < 80 / 9 \<and>
   gravK (Fin 8) = Fin (- 4) \<and>
   acceleratedVelocity (Fin 0) (Fin 0, Fin 0) (Fin 8)
       (normalize_vec (sub_vec vortexPos (Vector3 (Fin 0) (Fin 0) (Fin (- 10)))))
       (Vector3 (Fin 0) (Fin 0) (Fin 0)) =
     add_vec (Vector3 (Fin 0) (Fin 0) (Fin (1 / 16))) (noise (Fin 0) (Fin 8)) \<and>
   sphereVelocity (animate 0 0 (\<lambda>k. 0) (sphereAt (Vector3 (Fin 0) (Fin 0) (Fin (- 10))))) =
     multiplyScalar
       (clampSpeed (add_vec (Vector3 (Fin 0) (Fin 0) (Fin (1 / 16))) (noise (Fin 0) (Fin 8))))
       friction"
proof -
  let ?s = "sphereAt (Vector3 (Fin 0) (Fin 0) (Fin (- 10)))"
  have sq: "sqrt 64 = 8"
    using real_sqrt_abs2 [of 8] by simp
  have pos: "sphere_position ?s = Vector3 (Fin 0) (Fin 0) (Fin (- 10))"
    by (simp add: sphereAt_def)
  have len: "length_vec (sub_vec vortexPos (sphere_position ?s)) = Fin 8"
    by (simp add: pos sq)
  have near: "(8::real) < 80 / 9"
    by simp
  have st: "moveTarget ?s = (Fin 0, Fin 0)" "sphereVelocity ?s = Vector3 (Fin 0) (Fin 0) (Fin 0)"
    by (simp_all add: sphereAt_def startAudio_def initialWorld_def)
  show ?thesis
    using pos len near gravK_negative_near_vortex [OF pos len near, of 0 0 "\<lambda>k. 0"]
    by (simp add: st addPlayerInput_def)
qed

section \<open>The intensity of the audio in a frame\<close>

lemma animate_intensity:
  "targetGain (animate time perfNow rnd s) =
     targetGain (setAudioIntensity
       (intensityAt (length_vec (sub_vec vortexPos (sphere_position s)))) s)"
  "filterNode_frequency (animate time perfNow rnd s) =
     filterNode_frequency (setAudioIntensity
       (intensityAt (length_vec (sub_vec vortexPos (sphere_position s)))) s)"
  by (simp_all add: animate_def Let_def engulf_def fadeOutAudio_def moveSphere_def smoothGain_def)

lemma intensity_ranges:
  fixes d :: real
  shows "1 \<le> 2 - min 1 (d / 160)"
    and "1.08 \<le> 0.13 + 0.95 * min 1.2 (2 - min 1 (d / 160))"
    and "0.13 + 0.95 * min 1.2 (2 - min 1 (d / 160)) \<le> 1.27"
    and "- 800 \<le> 800 + 8000 * (1 - min 1.2 (2 - min 1 (d / 160)))"
    and "800 + 8000 * (1 - min 1.2 (2 - min 1 (d / 160))) \<le> 800"
    and "max 0 (min 1.2 (2 - min 1 (d / 160))) = min 1.2 (2 - min 1 (d / 160))"
    and "d \<le> 144 \<Longrightarrow> 800 + 8000 * (1 - min 1.2 (2 - min 1 (d / 160))) \<le> 0"
proof -
  define i where "i = 2 - min 1 (d / 160)"
  define c where "c = min 1.2 i"
  have i1: "1 \<le> i"
    by (simp add: i_def)
  have c1: "1 \<le> c" and c2: "c \<le> 1.2"
    using i1 by (simp_all add: c_def)
  show "1 \<le> 2 - min 1 (d / 160)"
    using i1 unfolding i_def .
  have "1.08 \<le> 0.13 + 0.95 * c"
    using c1 by simp
  then show "1.08 \<le> 0.13 + 0.95 * min 1.2 (2 - min 1 (d / 160))"
    unfolding c_def i_def .
  have "0.13 + 0.95 * c \<le> 1.27"
    using c2 by simp
  then show "0.13 + 0.95 * min 1.2 (2 - min 1 (d / 160)) \<le> 1.27"
    unfolding c_def i_def .
  have "- 800 \<le> 800 + 8000 * (1 - c)"
    using c2 by simp
  then show "- 800 \<le> 800 + 8000 * (1 - min 1.2 (2 - min 1 (d / 160)))"
    unfolding c_def i_def .
  have "800 + 8000 * (1 - c) \<le> 800"
    using c1 by simp
  then show "800 + 8000 * (1 - min 1.2 (2 - min 1 (d / 160))) \<le> 800"
    unfolding c_def i_def .
  have "max 0 c = c"
    using c1 by simp
  then show "max 0 (min 1.2 (2 - min 1 (d / 160))) = min 1.2 (2 - min 1 (d / 160))"
    unfolding c_def i_def .
  show "800 + 8000 * (1 - min 1.2 (2 - min 1 (d / 160))) \<le> 0" if "d \<le> 144"
  proof -
    have "d / 160 \<le> 0.9"
      using that by simp
    then have "min 1 (d / 160) \<le> 0.9"
      by (simp add: min_le_iff_disj)
    then have "1.1 \<le> i"
      unfolding i_def by simp
    then have "1.1 \<le> c"
      by (simp add: c_def)
    then have "800 + 8000 * (1 - c) \<le> 0"
      by simp
    then show ?thesis
      unfolding c_def i_def .
  qed
qed

text \<open>
  C10. In a frame that starts with the sphere at the finite distance \<open>dist\<close> from the
  vortex, the intensity handed to \<open>setAudioIntensity\<close> is \<open>2 - min(1, dist / 160)\<close>, at
  least \<open>1\<close>. With the audio started, after the frame \<open>targetGain\<close> is
  \<open>0.13 + 0.95 * min(1.2, intensity)\<close>, in \<open>[1.08, 1.27]\<close>, and the cutoff is
  \<open>800 + 8000 * (1 - min(1.2, intensity))\<close>, in \<open>[-800, 800]\<close>: not positive up to the
  distance \<open>144\<close>, and \<open>-800\<close> at distance \<open>0\<close>.
\<close>

theorem intensity_never_below_one:
  assumes started: "audioStarted s"
    and len: "length_vec (sub_vec vortexPos (sphere_position s)) = Fin d"
  shows "intensityAt (length_vec (sub_vec vortexPos (sphere_position s))) =
      Fin (2 - min 1 (d / 160)) \<and>
    1 \<le> 2 - min 1 (d / 160) \<and>
    targetGain (animate time perfNow rnd s) =
      Fin (0.13 + 0.95 * min 1.2 (2 - min 1 (d / 160))) \<and>
    1.08 \<le> 0.13 + 0.95 * min 1.2 (2 - min 1 (d / 160)) \<and>
    0.13 + 0.95 * min 1.2 (2 - min 1 (d / 160)) \<le> 1.27 \<and>
    filterNode_frequency (animate time perfNow rnd s) =
      Some (Fin (800 + 8000 * (1 - min 1.2 (2 - min 1 (d / 160))))) \<and>
    - 800 \<le> 800 + 8000 * (1 - min 1.2 (2 - min 1 (d / 160))) \<and>
    800 + 8000 * (1 - min 1.2 (2 - min 1 (d / 160))) \<le> 800 \<and>
    (d \<le> 144 \<longrightarrow> 800 + 8000 * (1 - min 1.2 (2 - min 1 (d / 160))) \<le> 0) \<and>
    (d = 0 \<longrightarrow> filterNode_frequency (animate time perfNow rnd s) = Some (Fin (- 800))) \<and>
    (stepCallbacks s = [] \<longrightarrow>
      targetGain (frame time perfNow rnd s) = targetGain (animate time perfNow rnd s) \<and>
      filterNode_frequency (frame time perfNow rnd s) =
        filterNode_frequency (animate time perfNow rnd s))"
proof -
  note r = intensity_ranges [of d]
  have i: "intensityAt (length_vec (sub_vec vortexPos (sphere_position s))) =
      Fin (2 - min 1 (d / 160))"
    by (simp add: len intensityAt_Fin)
  have set: "setAudioIntensity (Fin (2 - min 1 (d / 160))) s =
    s\<lparr>targetGain := Fin (0.13 + 0.95 * min 1.2 (2 - min 1 (d / 160))),
      filterNode_frequency := Some (Fin (800 + 8000 * (1 - min 1.2 (2 - min 1 (d / 160)))))\<rparr>"
    unfolding setAudioIntensity_started [OF started] r(6) ..
  have t: "targetGain (animate time perfNow rnd s) =
      Fin (0.13 + 0.95 * min 1.2 (2 - min 1 (d / 160)))"
    and f: "filterNode_frequency (animate time perfNow rnd s) =
      Some (Fin (800 + 8000 * (1 - min 1.2 (2 - min 1 (d / 160)))))"
    unfolding animate_intensity i set by simp_all
  have z: "filterNode_frequency (animate time perfNow rnd s) = Some (Fin (- 800))" if "d = 0"
    unfolding f using that by simp
  have fr: "targetGain (frame time perfNow rnd s) = targetGain (animate time perfNow rnd s)"
    "filterNode_frequency (frame time perfNow rnd s) =
      filterNode_frequency (animate time perfNow rnd s)" if "stepCallbacks s = []"
    using that by (simp_all add: frame_no_callbacks)
  show ?thesis
    by (intro conjI impI i r(1-5) t f; (erule r(7) z fr))
qed

theorem intensity_never_below_one_witness:
  "audioStarted (sphereAt (Vector3 (Fin 0) (Fin 0) (Fin 1000))) \<and>
   length_vec (sub_vec vortexPos (sphere_position (sphereAt (Vector3 (Fin 0) (Fin 0) (Fin 1000)))))
     = Fin 1018 \<and>
   targetGain (animate 0 0 (\<lambda>k. 0) (sphereAt (Vector3 (Fin 0) (Fin 0) (Fin 1000)))) = Fin 1.08 \<and>
   filterNode_frequency (animate 0 0 (\<lambda>k. 0) (sphereAt (Vector3 (Fin 0) (Fin 0) (Fin 1000)))) =
     Some (Fin 800) \<and>
   targetGain (frame 0 0 (\<lambda>k. 0) (sphereAt (Vector3 (Fin 0) (Fin 0) (Fin 1000)))) = Fin 1.08 \<and>
   length_vec (sub_vec vortexPos (sphere_position (sphereAt (Vector3 (Fin 0) (Fin 0) (Fin (- 18))))))
     = Fin 0 \<and>
   targetGain (animate 0 0 (\<lambda>k. 0) (sphereAt (Vector3 (Fin 0) (Fin 0) (Fin (- 18))))) = Fin 1.27 \<and>
   filterNode_frequency (animate 0 0 (\<lambda>k. 0) (sphereAt (Vector3 (Fin 0) (Fin 0) (Fin (- 18))))) =
     Some (Fin (- 800))"
proof -
  have a: "audioStarted (sphereAt p)" "stepCallbacks (sphereAt p) = []" for p
    by (simp_all add: sphereAt_def startAudio_def initialWorld_def)
  have l1: "length_vec (sub_vec vortexPos (sphere_position (sphereAt (Vector3 (Fin 0) (Fin 0) (Fin 1000)))))
     = Fin 1018"
    using real_sqrt_abs2 [of 1018] by (simp add: sphereAt_def)
  have l2: "length_vec (sub_vec vortexPos (sphere_position (sphereAt (Vector3 (Fin 0) (Fin 0) (Fin (- 18))))))
     = Fin 0"
    by (simp add: sphereAt_def)
  note w1 = intensity_never_below_one [OF a(1) l1, of 0 0 "\<lambda>k. 0"]
  note w2 = intensity_never_below_one [OF a(1) l2, of 0 0 "\<lambda>k. 0"]
  note c3 = conjunct2 [THEN conjunct2, THEN conjunct1]
  note c6 = conjunct2 [THEN conjunct2, THEN conjunct2, THEN conjunct2, THEN conjunct2, THEN conjunct1]
  note c11 = conjunct2 [THEN conjunct2, THEN conjunct2, THEN conjunct2, THEN conjunct2,
    THEN conjunct2, THEN conjunct2, THEN conjunct2, THEN conjunct2, THEN conjunct2]
  have t1: "targetGain (animate 0 0 (\<lambda>k. 0) (sphereAt (Vector3 (Fin 0) (Fin 0) (Fin 1000)))) = Fin 1.08"
    using w1 [THEN c3] by simp
  have f1: "filterNode_frequency (animate 0 0 (\<lambda>k. 0) (sphereAt (Vector3 (Fin 0) (Fin 0) (Fin 1000)))) =
     Some (Fin 800)"
    using w1 [THEN c6] by simp
  have g1: "targetGain (frame 0 0 (\<lambda>k. 0) (sphereAt (Vector3 (Fin 0) (Fin 0) (Fin 1000)))) = Fin 1.08"
    using w1 [THEN c11] a(2) t1 by simp
  have t2: "targetGain (animate 0 0 (\<lambda>k. 0) (sphereAt (Vector3 (Fin 0) (Fin 0) (Fin (- 18))))) = Fin 1.27"
    using w2 [THEN c3] by simp
  have f2: "filterNode_frequency (animate 0 0 (\<lambda>k. 0) (sphereAt (Vector3 (Fin 0) (Fin 0) (Fin (- 18))))) =
     Some (Fin (- 800))"
    using w2 [THEN c6] by simp
  show ?thesis
    by (intro conjI a(1) l1 l2 t1 f1 g1 t2 f2)
qed

end
